theory Spec2Isabelle
  imports Complex_Main "HOL-Library.AList"
begin

section \<open>Python values used by the merger\<close>

text \<open>
  A Python \<open>str\<close> is a sequence of Unicode code points, so it is modelled as a list of
  natural numbers; \<open>len\<close> is \<open>length\<close>.  \<open>ascii\<close> reads an ASCII literal.
  The character classes below follow CPython: \<open>py_isspace\<close> is the full table behind
  \<open>str.strip()\<close>, \<open>str.isspace()\<close> and the regular expression class \<open>\s\<close>.
  Case mapping and the classes \<open>\w\<close> and \<open>\d\<close> are exact on ASCII and on the uncased
  scripts (Hangul, CJK) that the synonym table uses; cased letters and digits of other
  scripts are treated as uncased word characters.
  Python floats that only carry scores are modelled as exact rationals.
\<close>

type_synonym pystr = "nat list"

definition ascii :: "string \<Rightarrow> pystr" where
  "ascii s = map of_char s"

definition py_isspace :: "nat \<Rightarrow> bool" where
  "py_isspace c \<longleftrightarrow>
     (9 \<le> c \<and> c \<le> 13) \<or> (28 \<le> c \<and> c \<le> 32) \<or> c = 0x85 \<or> c = 0xA0 \<or> c = 0x1680 \<or>
     (0x2000 \<le> c \<and> c \<le> 0x200A) \<or> c = 0x2028 \<or> c = 0x2029 \<or> c = 0x202F \<or>
     c = 0x205F \<or> c = 0x3000"

definition py_isdigit :: "nat \<Rightarrow> bool" where
  "py_isdigit c \<longleftrightarrow> 48 \<le> c \<and> c \<le> 57"

definition py_isupper_char :: "nat \<Rightarrow> bool" where
  "py_isupper_char c \<longleftrightarrow> 65 \<le> c \<and> c \<le> 90"

definition py_islower_char :: "nat \<Rightarrow> bool" where
  "py_islower_char c \<longleftrightarrow> 97 \<le> c \<and> c \<le> 122"

definition py_isword :: "nat \<Rightarrow> bool" where
  "py_isword c \<longleftrightarrow>
     py_isdigit c \<or> py_isupper_char c \<or> py_islower_char c \<or> c = 95 \<or>
     (128 \<le> c \<and> \<not> py_isspace c)"

definition py_lower :: "pystr \<Rightarrow> pystr" where
  "py_lower s = map (\<lambda>c. if py_isupper_char c then c + 32 else c) s"

definition py_upper :: "pystr \<Rightarrow> pystr" where
  "py_upper s = map (\<lambda>c. if py_islower_char c then c - 32 else c) s"

definition py_strip :: "pystr \<Rightarrow> pystr" where
  "py_strip s = rev (dropWhile py_isspace (rev (dropWhile py_isspace s)))"

text \<open>\<open>needle in haystack\<close> on strings: containment as a contiguous block.\<close>

fun py_contains :: "pystr \<Rightarrow> pystr \<Rightarrow> bool" where
  "py_contains w [] = (w = [])"
| "py_contains w (c # cs) = (take (length w) (c # cs) = w \<or> py_contains w cs)"

text \<open>\<open>re.findall(p+, s)\<close> for a character class \<open>p\<close>: the maximal runs, left to right.\<close>

fun findall_runs :: "(nat \<Rightarrow> bool) \<Rightarrow> pystr \<Rightarrow> pystr \<Rightarrow> pystr list" where
  "findall_runs p cur [] = (if cur = [] then [] else [cur])"
| "findall_runs p cur (c # cs) =
     (if p c then findall_runs p (cur @ [c]) cs
      else (if cur = [] then [] else [cur]) @ findall_runs p [] cs)"

definition re_findall :: "(nat \<Rightarrow> bool) \<Rightarrow> pystr \<Rightarrow> pystr list" where
  "re_findall p s = findall_runs p [] s"

text \<open>
  A cell value.  \<open>None\<close>, \<open>bool\<close>, \<open>int\<close>, \<open>float\<close>, \<open>str\<close> and \<open>datetime\<close> are the types
  the readers deliver and the code tests with \<open>isinstance\<close>.  A finite float is
  identified with the decimal number \<open>m / 10 ^ k\<close> that \<open>repr\<close> prints for it; binary
  rounding error is outside the model.
\<close>

datatype pyfloat = Fin int nat | Inf bool | NaN

record datetime =
  year :: int
  month :: int
  day :: int
  hour :: int
  minute :: int
  second :: int
  microsecond :: int

datatype cell =
    CNone
  | CBool bool
  | CInt int
  | CFloat pyfloat
  | CStr pystr
  | CDateTime datetime

definition float_val :: "int \<Rightarrow> nat \<Rightarrow> rat" where
  "float_val m k = rat_of_int m / 10 ^ k"

text \<open>Truthiness, as \<open>any(row_data)\<close> tests it.\<close>

fun py_bool :: "cell \<Rightarrow> bool" where
  "py_bool CNone = False"
| "py_bool (CBool b) = b"
| "py_bool (CInt n) = (n \<noteq> 0)"
| "py_bool (CFloat (Fin m k)) = (m \<noteq> 0)"
| "py_bool (CFloat _) = True"
| "py_bool (CStr s) = (s \<noteq> [])"
| "py_bool (CDateTime d) = True"

text \<open>
  \<open>set(cells)\<close> identifies cells that compare equal: \<open>True == 1 == 1.0\<close>.  \<open>py_key\<close>
  sends a cell to the representative of its class, so the size of the set is the number
  of distinct keys.
\<close>

datatype cell_key = KNone | KNum rat | KInf bool | KNaN | KStr pystr | KDateTime datetime

fun py_key :: "cell \<Rightarrow> cell_key" where
  "py_key CNone = KNone"
| "py_key (CBool b) = KNum (if b then 1 else 0)"
| "py_key (CInt n) = KNum (rat_of_int n)"
| "py_key (CFloat (Fin m k)) = KNum (float_val m k)"
| "py_key (CFloat (Inf b)) = KInf b"
| "py_key (CFloat NaN) = KNaN"
| "py_key (CStr s) = KStr s"
| "py_key (CDateTime d) = KDateTime d"

fun is_str :: "cell \<Rightarrow> bool" where
  "is_str (CStr s) = True"
| "is_str _ = False"

section \<open>The datetime library\<close>

text \<open>
  The proleptic Gregorian calendar of Python's \<open>datetime\<close>: ordinals count days from
  0001-01-01 = 1.  \<open>ymd2ord\<close> and \<open>ord2ymd\<close> follow the library's own algorithms.
\<close>

definition is_leap :: "int \<Rightarrow> bool" where
  "is_leap y \<longleftrightarrow> y mod 4 = 0 \<and> (y mod 100 \<noteq> 0 \<or> y mod 400 = 0)"

definition DAYS_IN_MONTH :: "int list" where
  "DAYS_IN_MONTH = [- 1, 31, 28, 31, 30, 31, 30, 31, 31, 30, 31, 30, 31]"

definition DAYS_BEFORE_MONTH :: "int list" where
  "DAYS_BEFORE_MONTH = [- 1, 0, 31, 59, 90, 120, 151, 181, 212, 243, 273, 304, 334]"

definition days_before_year :: "int \<Rightarrow> int" where
  "days_before_year y = (let z = y - 1 in z * 365 + z div 4 - z div 100 + z div 400)"

definition days_in_month :: "int \<Rightarrow> int \<Rightarrow> int" where
  "days_in_month y m = (if m = 2 \<and> is_leap y then 29 else DAYS_IN_MONTH ! nat m)"

definition days_before_month :: "int \<Rightarrow> int \<Rightarrow> int" where
  "days_before_month y m =
     DAYS_BEFORE_MONTH ! nat m + (if m > 2 \<and> is_leap y then 1 else 0)"

definition ymd2ord :: "int \<Rightarrow> int \<Rightarrow> int \<Rightarrow> int" where
  "ymd2ord y m d = days_before_year y + days_before_month y m + d"

definition ord2ymd :: "int \<Rightarrow> int \<times> int \<times> int" where
  "ord2ymd n0 =
     (let n = n0 - 1;
          n400 = n div 146097; n = n mod 146097;
          y = n400 * 400 + 1;
          n100 = n div 36524; n = n mod 36524;
          n4 = n div 1461; n = n mod 1461;
          n1 = n div 365; n = n mod 365;
          y = y + n100 * 100 + n4 * 4 + n1
      in if n1 = 4 \<or> n100 = 4 then (y - 1, 12, 31)
         else
           let leapyear = (n1 = 3 \<and> (n4 \<noteq> 24 \<or> n100 = 3));
               m = (n + 50) div 32;
               preceding = DAYS_BEFORE_MONTH ! nat m + (if m > 2 \<and> leapyear then 1 else 0);
               (m, preceding) =
                 (if preceding > n
                  then (m - 1, preceding -
                          (DAYS_IN_MONTH ! nat (m - 1) +
                           (if m - 1 = 2 \<and> leapyear then 1 else 0)))
                  else (m, preceding))
           in (y, m, n - preceding + 1))"

definition MAXORDINAL :: int where
  "MAXORDINAL = 3652059"

text \<open>
  The constructor \<open>datetime(year, month, day, hour, minute, second, microsecond)\<close>;
  \<open>None\<close> is its \<open>ValueError\<close>.
\<close>

definition mk_datetime ::
  "int \<Rightarrow> int \<Rightarrow> int \<Rightarrow> int \<Rightarrow> int \<Rightarrow> int \<Rightarrow> int \<Rightarrow> datetime option" where
  "mk_datetime y m d hh mm ss us =
     (if 1 \<le> y \<and> y \<le> 9999 \<and> 1 \<le> m \<and> m \<le> 12 \<and> 1 \<le> d \<and> d \<le> days_in_month y m \<and>
         0 \<le> hh \<and> hh \<le> 23 \<and> 0 \<le> mm \<and> mm \<le> 59 \<and> 0 \<le> ss \<and> ss \<le> 59 \<and>
         0 \<le> us \<and> us \<le> 999999
      then Some \<lparr>year = y, month = m, day = d, hour = hh, minute = mm, second = ss,
                 microsecond = us\<rparr>
      else None)"

text \<open>
  \<open>round\<close> to the nearest integer, ties to the even one, as \<open>timedelta\<close> rounds to
  microseconds and \<open>round(x, n)\<close> rounds at an exact tie.
\<close>

definition round_half_even :: "rat \<Rightarrow> int" where
  "round_half_even x =
     (let f = floor x; r = x - of_int f
      in if r < 1 / 2 then f
         else if r > 1 / 2 then f + 1
         else if even f then f else f + 1)"

text \<open>
  \<open>dt + timedelta(days = x)\<close>: the duration is rounded to microseconds, the sum is
  renormalised, and a result outside years 1 to 9999 is the library's \<open>OverflowError\<close>
  (\<open>None\<close>).
\<close>

definition micros_of_datetime :: "datetime \<Rightarrow> int" where
  "micros_of_datetime dt =
     (((ymd2ord (year dt) (month dt) (day dt) * 24 + hour dt) * 60 + minute dt) * 60
        + second dt) * 1000000 + microsecond dt"

definition datetime_of_micros :: "int \<Rightarrow> datetime option" where
  "datetime_of_micros micros =
     (let us_per_day = 86400000000;
          days = micros div us_per_day;
          rest = micros mod us_per_day;
          us = rest mod 1000000;
          secs = rest div 1000000
      in if 0 < days \<and> days \<le> MAXORDINAL
         then (case ord2ymd days of (y, m, d) \<Rightarrow>
                 Some \<lparr>year = y, month = m, day = d, hour = secs div 3600,
                       minute = (secs mod 3600) div 60, second = secs mod 60,
                       microsecond = us\<rparr>)
         else None)"

definition datetime_add_days :: "datetime \<Rightarrow> rat \<Rightarrow> datetime option" where
  "datetime_add_days dt x =
     datetime_of_micros (micros_of_datetime dt + round_half_even (x * 86400000000))"

section \<open>Printing numbers\<close>

text \<open>\<open>str(n)\<close> for a natural number, and zero padding as \<open>'%02d'\<close> and \<open>'%04d'\<close> do it.\<close>

function str_nat :: "nat \<Rightarrow> pystr" where
  "str_nat n = (if n < 10 then [48 + n] else str_nat (n div 10) @ [48 + n mod 10])"
  by pat_completeness auto
termination
  by (relation "measure id") auto

declare str_nat.simps [simp del]

definition str_int :: "int \<Rightarrow> pystr" where
  "str_int i = (if i < 0 then 45 # str_nat (nat (- i)) else str_nat (nat i))"

definition zero_pad :: "nat \<Rightarrow> int \<Rightarrow> pystr" where
  "zero_pad w i =
     (let s = str_nat (nat \<bar>i\<bar>); z = replicate (w - length s) 48
      in if i < 0 then 45 # z @ s else z @ s)"

section \<open>strftime and strptime\<close>

text \<open>
  The directives the source uses: \<open>%Y %m %d %H %M %S %y %B %b\<close> and \<open>%%\<close>.  Month names
  are those of the C locale (the program never sets a locale).  \<open>strftime\<close> is the one
  of the C library: with glibc \<open>%Y\<close> prints the year as a plain number, not padded, so the
  year 999 is printed \<open>999\<close>; the other numbers are padded with zeros to two digits.
  \<open>strftime\<close> leaves any other directive in place; \<open>strptime\<close> rejects it as a bad
  directive, and its \<open>%Y\<close> takes exactly four digits.
\<close>

definition month_name :: "pystr list" where
  "month_name = map ascii ['''', ''January'', ''February'', ''March'', ''April'', ''May'',
     ''June'', ''July'', ''August'', ''September'', ''October'', ''November'', ''December'']"

definition month_abbr :: "pystr list" where
  "month_abbr = map ascii ['''', ''Jan'', ''Feb'', ''Mar'', ''Apr'', ''May'', ''Jun'', ''Jul'',
     ''Aug'', ''Sep'', ''Oct'', ''Nov'', ''Dec'']"

definition strftime_directive :: "datetime \<Rightarrow> nat \<Rightarrow> pystr" where
  "strftime_directive dt d =
     (if d = of_char CHR ''Y'' then str_int (year dt)
      else if d = of_char CHR ''m'' then zero_pad 2 (month dt)
      else if d = of_char CHR ''d'' then zero_pad 2 (day dt)
      else if d = of_char CHR ''H'' then zero_pad 2 (hour dt)
      else if d = of_char CHR ''M'' then zero_pad 2 (minute dt)
      else if d = of_char CHR ''S'' then zero_pad 2 (second dt)
      else if d = of_char CHR ''y'' then zero_pad 2 (year dt mod 100)
      else if d = of_char CHR ''B'' then month_name ! nat (month dt)
      else if d = of_char CHR ''b'' then month_abbr ! nat (month dt)
      else if d = of_char CHR ''%'' then [d]
      else [of_char CHR ''%'', d])"

fun strftime :: "datetime \<Rightarrow> pystr \<Rightarrow> pystr" where
  "strftime dt [] = []"
| "strftime dt [c] = [c]"
| "strftime dt (c # d # rest) =
     (if c = of_char CHR ''%'' then strftime_directive dt d @ strftime dt rest
      else c # strftime dt (d # rest))"

text \<open>
  \<open>strptime\<close> compiles the format into a regular expression: a run of whitespace
  becomes \<open>\s+\<close>, a directive becomes a group of ordered alternatives, every other
  character stands for itself (ignoring case).  \<open>None\<close> is the \<open>ValueError\<close> of a stray
  \<open>%\<close> or a bad directive.
\<close>

datatype fmt_item = FLit nat | FSpace | FDir nat

definition known_directives :: "nat list" where
  "known_directives = ascii ''YmdHMSyBb''"

fun fmt_items :: "pystr \<Rightarrow> fmt_item list option" where
  "fmt_items [] = Some []"
| "fmt_items (c # rest) =
     (if py_isspace c then
        map_option (\<lambda>its. case its of FSpace # _ \<Rightarrow> its | _ \<Rightarrow> FSpace # its) (fmt_items rest)
      else if c = of_char CHR ''%'' then
        (case rest of
           [] \<Rightarrow> None
         | d # rest' \<Rightarrow>
             if d = of_char CHR ''%'' then map_option ((#) (FLit d)) (fmt_items rest')
             else if d \<in> set known_directives then map_option ((#) (FDir d)) (fmt_items rest')
             else None)
      else map_option ((#) (FLit c)) (fmt_items rest))"

definition digit_val :: "nat \<Rightarrow> int" where
  "digit_val c = int c - 48"

text \<open>One alternative of two characters, and one of a single character.\<close>

definition alt2 :: "(nat \<Rightarrow> bool) \<Rightarrow> (nat \<Rightarrow> bool) \<Rightarrow> pystr \<Rightarrow> (int \<times> pystr) list" where
  "alt2 p q s =
     (case s of
        a # b # rest \<Rightarrow>
          if p a \<and> q b
          then [((if a = 32 then 0 else digit_val a) * 10 + digit_val b, rest)] else []
      | _ \<Rightarrow> [])"

definition alt1 :: "(nat \<Rightarrow> bool) \<Rightarrow> pystr \<Rightarrow> (int \<times> pystr) list" where
  "alt1 p s = (case s of a # rest \<Rightarrow> if p a then [(digit_val a, rest)] else [] | _ \<Rightarrow> [])"

definition in_range :: "nat \<Rightarrow> nat \<Rightarrow> nat \<Rightarrow> bool" where
  "in_range lo hi c \<longleftrightarrow> 48 + lo \<le> c \<and> c \<le> 48 + hi"

text \<open>A month name, ignoring case; the names are tried longest first, the empty name last.\<close>

definition name_alts :: "pystr list \<Rightarrow> pystr \<Rightarrow> (int \<times> pystr) list" where
  "name_alts names s =
     concat (map (\<lambda>(i, nm).
         if py_lower (take (length nm) s) = py_lower nm \<and> length nm \<le> length s
         then [(int i, drop (length nm) s)] else [])
       (rev (sort_key (\<lambda>(i, nm). length nm) (rev (enumerate 0 names)))))"

definition dir_candidates :: "nat \<Rightarrow> pystr \<Rightarrow> (int \<times> pystr) list" where
  "dir_candidates d s =
     (if d = of_char CHR ''Y'' then
        (case s of
           a # b # c # e # rest \<Rightarrow>
             if py_isdigit a \<and> py_isdigit b \<and> py_isdigit c \<and> py_isdigit e
             then [(((digit_val a * 10 + digit_val b) * 10 + digit_val c) * 10 + digit_val e,
                    rest)]
             else []
         | _ \<Rightarrow> [])
      else if d = of_char CHR ''y'' then alt2 py_isdigit py_isdigit s
      else if d = of_char CHR ''m'' then
        alt2 (in_range 1 1) (in_range 0 2) s @
        alt2 (in_range 0 0) (in_range 1 9) s @
        alt1 (in_range 1 9) s
      else if d = of_char CHR ''d'' then
        alt2 (in_range 3 3) (in_range 0 1) s @
        alt2 (in_range 1 2) py_isdigit s @
        alt2 (in_range 0 0) (in_range 1 9) s @
        alt1 (in_range 1 9) s @
        alt2 (\<lambda>c. c = 32) (in_range 1 9) s
      else if d = of_char CHR ''H'' then
        alt2 (in_range 2 2) (in_range 0 3) s @
        alt2 (in_range 0 1) py_isdigit s @
        alt1 py_isdigit s
      else if d = of_char CHR ''M'' then
        alt2 (in_range 0 5) py_isdigit s @ alt1 py_isdigit s
      else if d = of_char CHR ''S'' then
        alt2 (in_range 6 6) (in_range 0 1) s @
        alt2 (in_range 0 5) py_isdigit s @
        alt1 py_isdigit s
      else if d = of_char CHR ''B'' then name_alts month_name s
      else if d = of_char CHR ''b'' then name_alts month_abbr s
      else [])"

fun first_some :: "'b option list \<Rightarrow> 'b option" where
  "first_some [] = None"
| "first_some (Some y # xs) = Some y"
| "first_some (None # xs) = first_some xs"

text \<open>
  The regular-expression match, by backtracking: the alternatives of each item are tried
  in order and the first complete match of the pattern wins.  The result is the list of
  groups found and the text left over.
\<close>

fun match_items ::
  "fmt_item list \<Rightarrow> pystr \<Rightarrow> (nat \<times> int) list \<Rightarrow> ((nat \<times> int) list \<times> pystr) option" where
  "match_items [] s found = Some (found, s)"
| "match_items (FLit c # its) s found =
     (case s of
        [] \<Rightarrow> None
      | x # xs \<Rightarrow> if py_lower [x] = py_lower [c] then match_items its xs found else None)"
| "match_items (FSpace # its) s found =
     first_some (map (\<lambda>k. match_items its (drop k s) found)
       (rev [1..<Suc (length (takeWhile py_isspace s))]))"
| "match_items (FDir d # its) s found =
     first_some (map (\<lambda>(v, rest). match_items its rest (found @ [(d, v)]))
       (dir_candidates d s))"

text \<open>
  The fields of the result, with the defaults 1900-01-01 00:00:00; a two-digit year up
  to 68 is in the 2000s, from 69 in the 1900s.
\<close>

fun set_field :: "int \<times> int \<times> int \<times> int \<times> int \<times> int \<Rightarrow> nat \<times> int \<Rightarrow>
    int \<times> int \<times> int \<times> int \<times> int \<times> int" where
  "set_field (y, m, d, hh, mm, ss) (k, v) =
     (if k = of_char CHR ''Y'' then (v, m, d, hh, mm, ss)
      else if k = of_char CHR ''y'' then
        ((if v \<le> 68 then v + 2000 else v + 1900), m, d, hh, mm, ss)
      else if k = of_char CHR ''m'' \<or> k = of_char CHR ''B'' \<or> k = of_char CHR ''b''
        then (y, v, d, hh, mm, ss)
      else if k = of_char CHR ''d'' then (y, m, v, hh, mm, ss)
      else if k = of_char CHR ''H'' then (y, m, d, v, mm, ss)
      else if k = of_char CHR ''M'' then (y, m, d, hh, v, ss)
      else if k = of_char CHR ''S'' then (y, m, d, hh, mm, v)
      else (y, m, d, hh, mm, ss))"

text \<open>\<open>datetime.strptime(data_string, format)\<close>; \<open>None\<close> is its \<open>ValueError\<close>.\<close>

definition strptime :: "pystr \<Rightarrow> pystr \<Rightarrow> datetime option" where
  "strptime data_string format =
     (case fmt_items format of
        None \<Rightarrow> None
      | Some its \<Rightarrow>
          (case match_items its data_string [] of
             None \<Rightarrow> None
           | Some (found, rest) \<Rightarrow>
               if rest \<noteq> [] then None
               else
                 (case foldl set_field (1900, 1, 1, 0, 0, 0) found of
                    (y, m, d, hh, mm, ss) \<Rightarrow> mk_datetime y m d hh mm ss 0)))"

section \<open>str() of a cell\<close>

text \<open>
  \<open>repr\<close> of a finite float: the digits without trailing zeros, in fixed notation when
  the decimal point lies between positions \<open>-3\<close> and \<open>16\<close>, in exponent notation
  otherwise.  Signed zero is not modelled.
\<close>

definition float_repr :: "int \<Rightarrow> nat \<Rightarrow> pystr" where
  "float_repr m k =
     (if m = 0 then ascii ''0.0''
      else
        let ds0 = str_nat (nat \<bar>m\<bar>);
            decpt = int (length ds0) - int k;
            ds = rev (dropWhile (\<lambda>c. c = 48) (rev ds0));
            n = int (length ds);
            body =
              (if - 4 < decpt \<and> decpt \<le> 16 then
                 (if decpt \<le> 0 then ascii ''0.'' @ replicate (nat (- decpt)) 48 @ ds
                  else if decpt \<ge> n then ds @ replicate (nat (decpt - n)) 48 @ ascii ''.0''
                  else take (nat decpt) ds @ ascii ''.'' @ drop (nat decpt) ds)
               else
                 take 1 ds @ (if n > 1 then ascii ''.'' @ drop 1 ds else []) @ ascii ''e'' @
                 (if decpt - 1 < 0 then ascii ''-'' else ascii ''+'') @
                 zero_pad 2 \<bar>decpt - 1\<bar>)
        in if m < 0 then ascii ''-'' @ body else body)"

fun py_str :: "cell \<Rightarrow> pystr" where
  "py_str CNone = ascii ''None''"
| "py_str (CBool b) = (if b then ascii ''True'' else ascii ''False'')"
| "py_str (CInt n) = str_int n"
| "py_str (CFloat (Fin m k)) = float_repr m k"
| "py_str (CFloat (Inf neg)) = (if neg then ascii ''-inf'' else ascii ''inf'')"
| "py_str (CFloat NaN) = ascii ''nan''"
| "py_str (CStr s) = s"
| "py_str (CDateTime d) =
     zero_pad 4 (year d) @ ascii ''-'' @ zero_pad 2 (month d) @ ascii ''-'' @
     zero_pad 2 (day d) @ ascii '' '' @ zero_pad 2 (hour d) @ ascii '':'' @
     zero_pad 2 (minute d) @ ascii '':'' @ zero_pad 2 (second d) @
     (if microsecond d = 0 then [] else ascii ''.'' @ zero_pad 6 (microsecond d))"

text \<open>\<open>pd.isna\<close>: \<open>None\<close> and the float NaN are missing values.\<close>

fun isna :: "cell \<Rightarrow> bool" where
  "isna CNone = True"
| "isna (CFloat NaN) = True"
| "isna _ = False"

section \<open>config.py\<close>

definition SIMILARITY_THRESHOLD :: rat where
  "SIMILARITY_THRESHOLD = 6 / 10"

definition COLUMN_SIMILARITY_THRESHOLD :: rat where
  "COLUMN_SIMILARITY_THRESHOLD = 5 / 10"

section \<open>core/processor.py: identifier similarity and matching\<close>

text \<open>
  \<open>ExcelProcessor\<close> carries the synonym table built by its constructor.  A dict is an
  association list in insertion order with unique keys.
\<close>

record ExcelProcessor =
  synonym_dict :: "(pystr \<times> pystr list) list"

definition init_synonym_dict :: "(pystr \<times> pystr list) list" where
  "init_synonym_dict = [
    ([0xC774, 0xB984], [[0xC131, 0xBA85], ascii ''name'', [0xC131, 0xD568], [0xC774, 0xB984]]),
    ([0xC131, 0xBA85], [[0xC774, 0xB984], ascii ''name'', [0xC131, 0xD568]]),
    (ascii ''name'', [[0xC774, 0xB984], [0xC131, 0xBA85], [0xC131, 0xD568]]),
    ([0xB098, 0xC774], [[0xC5F0, 0xB839], ascii ''age'', [0xC5F0, 0xC138]]),
    ([0xC5F0, 0xB839], [[0xB098, 0xC774], ascii ''age'', [0xC5F0, 0xC138]]),
    (ascii ''age'', [[0xB098, 0xC774], [0xC5F0, 0xB839], [0xC5F0, 0xC138]]),
    ([0xBD80, 0xC11C], [[0xBD80, 0xC11C, 0xBA85], ascii ''department'', [0xC18C, 0xC18D],
       [0xC18C, 0xC18D, 0xBD80, 0xC11C], [0xD300]]),
    ([0xBD80, 0xC11C, 0xBA85], [[0xBD80, 0xC11C], ascii ''department'', [0xC18C, 0xC18D],
       [0xC18C, 0xC18D, 0xBD80, 0xC11C]]),
    (ascii ''department'', [[0xBD80, 0xC11C], [0xBD80, 0xC11C, 0xBA85], [0xC18C, 0xC18D],
       [0xC18C, 0xC18D, 0xBD80, 0xC11C]]),
    ([0xC18C, 0xC18D, 0xBD80, 0xC11C], [[0xBD80, 0xC11C], [0xBD80, 0xC11C, 0xBA85],
       ascii ''department'']),
    ([0xC785, 0xC0AC, 0xC77C], [[0xC785, 0xC0AC, 0xC77C, 0xC790], ascii ''hire_date'',
       ascii ''hiredate'', [0xC785, 0xC0AC, 0x5F, 0xC77C], [0xCC44, 0xC6A9, 0xC77C]]),
    ([0xC785, 0xC0AC, 0xC77C, 0xC790], [[0xC785, 0xC0AC, 0xC77C], ascii ''hire_date'',
       ascii ''hiredate'', [0xC785, 0xC0AC, 0x5F, 0xC77C]]),
    (ascii ''hire_date'', [[0xC785, 0xC0AC, 0xC77C], [0xC785, 0xC0AC, 0xC77C, 0xC790],
       [0xCC44, 0xC6A9, 0xC77C]]),
    (ascii ''hiredate'', [[0xC785, 0xC0AC, 0xC77C], [0xC785, 0xC0AC, 0xC77C, 0xC790],
       [0xCC44, 0xC6A9, 0xC77C]]),
    ([0xC5F0, 0xBD09], [[0xAE09, 0xC5EC], ascii ''salary'', [0xC6D4, 0xAE09],
       [0xC5F0, 0xBD09, 0xC815, 0xBCF4], [0xAE09, 0xB8CC]]),
    ([0xAE09, 0xC5EC], [[0xC5F0, 0xBD09], ascii ''salary'', [0xC6D4, 0xAE09], [0xAE09, 0xB8CC]]),
    (ascii ''salary'', [[0xC5F0, 0xBD09], [0xAE09, 0xC5EC], [0xC6D4, 0xAE09], [0xAE09, 0xB8CC]]),
    ([0xC6D4, 0xAE09], [[0xC5F0, 0xBD09], [0xAE09, 0xC5EC], ascii ''salary'', [0xAE09, 0xB8CC]]),
    ([0xC9C1, 0xC6D0, 0xC815, 0xBCF4], [ascii ''employee_info'', ascii ''employee info'',
       [0xC0AC, 0xC6D0, 0xC815, 0xBCF4], [0xC9C1, 0xC6D0, 0x20, 0xC815, 0xBCF4]]),
    (ascii ''employee_info'', [[0xC9C1, 0xC6D0, 0xC815, 0xBCF4], [0xC0AC, 0xC6D0, 0xC815, 0xBCF4],
       [0xC9C1, 0xC6D0, 0x20, 0xC815, 0xBCF4]]),
    (ascii ''employee info'', [[0xC9C1, 0xC6D0, 0xC815, 0xBCF4], [0xC0AC, 0xC6D0, 0xC815, 0xBCF4],
       [0xC9C1, 0xC6D0, 0x20, 0xC815, 0xBCF4]])]"

definition init_ExcelProcessor :: ExcelProcessor where
  "init_ExcelProcessor = \<lparr>synonym_dict = init_synonym_dict\<rparr>"

text \<open>The inner function \<open>normalize_string\<close> of \<open>calculate_similarity\<close>.\<close>

definition normalize_string :: "pystr \<Rightarrow> pystr" where
  "normalize_string s =
     filter (\<lambda>c. \<not> (py_isspace c \<or> c \<in> set (ascii ''-_()[].'')))
       (py_strip (py_lower s))"

definition check_synonyms :: "ExcelProcessor \<Rightarrow> pystr \<Rightarrow> pystr \<Rightarrow> rat" where
  "check_synonyms self str1 str2 =
     (let str1_lower = py_strip (py_lower str1);
          str2_lower = py_strip (py_lower str2)
      in if (case map_of (synonym_dict self) str1_lower of
               Some synonyms \<Rightarrow> str2_lower \<in> set (map py_lower synonyms)
             | None \<Rightarrow> False)
         then 95 / 100
         else if (case map_of (synonym_dict self) str2_lower of
               Some synonyms \<Rightarrow> str1_lower \<in> set (map py_lower synonyms)
             | None \<Rightarrow> False)
         then 95 / 100
         else if list_ex (\<lambda>(key, synonyms).
                   let words = py_lower key # map py_lower synonyms
                   in list_ex (\<lambda>word. py_contains word str1_lower) words \<and>
                      list_ex (\<lambda>word. py_contains word str2_lower) words)
                 (synonym_dict self)
         then 8 / 10
         else 0)"

text \<open>
  \<open>difflib.SequenceMatcher(None, a, b).ratio()\<close> is library code outside the repository;
  it is the parameter \<open>ratio\<close> of everything that reaches it.
\<close>

definition calculate_similarity ::
  "(pystr \<Rightarrow> pystr \<Rightarrow> rat) \<Rightarrow> ExcelProcessor \<Rightarrow> pystr \<Rightarrow> pystr \<Rightarrow> rat" where
  "calculate_similarity ratio self str1 str2 =
     (if str1 = [] \<or> str2 = [] then 0
      else
        let normalized_str1 = normalize_string str1;
            normalized_str2 = normalize_string str2
        in if normalized_str1 = normalized_str2 then 1
           else
             let synonym_score = check_synonyms self str1 str2
             in if synonym_score > 0 then synonym_score
                else if py_contains normalized_str1 normalized_str2 \<or>
                        py_contains normalized_str2 normalized_str1
                then
                  (let shorter_len = min (length normalized_str1) (length normalized_str2);
                       longer_len = max (length normalized_str1) (length normalized_str2)
                   in rat_of_nat shorter_len / rat_of_nat longer_len * (9 / 10))
                else
                  (let basic_similarity = ratio normalized_str1 normalized_str2;
                       words1 = remdups (re_findall py_isword (py_lower str1));
                       words2 = remdups (re_findall py_isword (py_lower str2))
                   in if words1 \<noteq> [] \<and> words2 \<noteq> [] then
                        (let common_words = filter (\<lambda>w. w \<in> set words2) words1;
                             word_similarity =
                               rat_of_nat (length common_words) /
                               rat_of_nat (max (length words1) (length words2))
                         in basic_similarity * (7 / 10) + word_similarity * (3 / 10))
                      else basic_similarity))"

text \<open>
  The inner loop of both matchers: scan the targets in order, skip those in \<open>used\<close>
  (empty for sheets), keep the first strictly best score that reaches the threshold.
\<close>

fun best_target ::
  "(pystr \<Rightarrow> pystr \<Rightarrow> rat) \<Rightarrow> rat \<Rightarrow> pystr set \<Rightarrow> pystr \<Rightarrow> pystr list \<Rightarrow>
   pystr option \<times> rat \<Rightarrow> pystr option \<times> rat" where
  "best_target sim threshold used ref [] (best_match, best_score) = (best_match, best_score)"
| "best_target sim threshold used ref (target # targets) (best_match, best_score) =
     (if target \<in> used then best_target sim threshold used ref targets (best_match, best_score)
      else
        let score = sim ref target
        in if score > best_score \<and> score \<ge> threshold
           then best_target sim threshold used ref targets (Some target, score)
           else best_target sim threshold used ref targets (best_match, best_score))"

text \<open>\<open>if best_match:\<close> is Python truthiness: neither \<open>None\<close> nor the empty string.\<close>

definition truthy :: "pystr option \<Rightarrow> bool" where
  "truthy m = (case m of None \<Rightarrow> False | Some s \<Rightarrow> s \<noteq> [])"

fun match_sheets_loop ::
  "(pystr \<Rightarrow> pystr \<Rightarrow> rat) \<Rightarrow> rat \<Rightarrow> pystr list \<Rightarrow> pystr list \<Rightarrow>
   (pystr \<times> pystr) list \<Rightarrow> (pystr \<times> pystr) list" where
  "match_sheets_loop sim threshold [] target_sheets matches = matches"
| "match_sheets_loop sim threshold (ref_sheet # refs) target_sheets matches =
     (let best_match = fst (best_target sim threshold {} ref_sheet target_sheets (None, 0))
      in match_sheets_loop sim threshold refs target_sheets
           (if truthy best_match then AList.update ref_sheet (the best_match) matches
            else matches))"

definition match_sheets ::
  "(pystr \<Rightarrow> pystr \<Rightarrow> rat) \<Rightarrow> ExcelProcessor \<Rightarrow> pystr list \<Rightarrow> pystr list \<Rightarrow> rat option \<Rightarrow>
   (pystr \<times> pystr) list" where
  "match_sheets ratio self reference_sheets target_sheets threshold =
     match_sheets_loop (calculate_similarity ratio self)
       (case threshold of None \<Rightarrow> SIMILARITY_THRESHOLD | Some t \<Rightarrow> t)
       reference_sheets target_sheets []"

fun match_columns_loop ::
  "(pystr \<Rightarrow> pystr \<Rightarrow> rat) \<Rightarrow> rat \<Rightarrow> pystr list \<Rightarrow> pystr list \<Rightarrow>
   (pystr \<times> pystr) list \<times> pystr set \<Rightarrow> (pystr \<times> pystr) list \<times> pystr set" where
  "match_columns_loop sim threshold [] target_columns (matches, used_targets) =
     (matches, used_targets)"
| "match_columns_loop sim threshold (ref_col # refs) target_columns (matches, used_targets) =
     (let best_match =
            fst (best_target sim threshold used_targets ref_col target_columns (None, 0))
      in match_columns_loop sim threshold refs target_columns
           (if truthy best_match
            then (AList.update ref_col (the best_match) matches,
                  insert (the best_match) used_targets)
            else (matches, used_targets)))"

definition match_columns ::
  "(pystr \<Rightarrow> pystr \<Rightarrow> rat) \<Rightarrow> ExcelProcessor \<Rightarrow> pystr list \<Rightarrow> pystr list \<Rightarrow> rat option \<Rightarrow>
   (pystr \<times> pystr) list" where
  "match_columns ratio self reference_columns target_columns threshold =
     fst (match_columns_loop (calculate_similarity ratio self)
       (case threshold of None \<Rightarrow> COLUMN_SIMILARITY_THRESHOLD | Some t \<Rightarrow> t)
       reference_columns target_columns ([], {}))"

section \<open>core/processor.py: header-row detection\<close>

text \<open>
  The loop of \<open>_detect_header_row\<close> over \<open>enumerate(data[:10])\<close>, carrying
  \<open>(best_row, best_score)\<close>.  The result is the row index, or \<open>-1\<close> for no header.
\<close>

fun detect_header_loop ::
  "nat \<Rightarrow> cell list list \<Rightarrow> int \<times> rat \<Rightarrow> int \<times> rat" where
  "detect_header_loop row_idx [] (best_row, best_score) = (best_row, best_score)"
| "detect_header_loop row_idx (row_data # rest) (best_row, best_score) =
     (if \<not> list_ex py_bool row_data
      then detect_header_loop (Suc row_idx) rest (best_row, best_score)
      else
        let non_empty_cells = filter (\<lambda>cell. cell \<noteq> CNone) row_data
        in if length non_empty_cells < 2
           then detect_header_loop (Suc row_idx) rest (best_row, best_score)
           else
             let text_count = length (filter is_str non_empty_cells);
                 text_ratio = rat_of_nat text_count / rat_of_nat (length non_empty_cells);
                 unique_values = remdups (map py_key non_empty_cells);
                 unique_ratio =
                   rat_of_nat (length unique_values) / rat_of_nat (length non_empty_cells);
                 empty_count = length (filter (\<lambda>cell. cell = CNone) row_data);
                 empty_ratio = rat_of_nat empty_count / rat_of_nat (length row_data);
                 position_score = (10 - rat_of_nat row_idx) / 10;
                 total_score =
                   text_ratio * (4 / 10) + unique_ratio * (3 / 10) +
                   (1 - empty_ratio) * (2 / 10) + position_score * (1 / 10)
             in if total_score > best_score
                then detect_header_loop (Suc row_idx) rest (int row_idx, total_score)
                else detect_header_loop (Suc row_idx) rest (best_row, best_score))"

definition detect_header_row :: "cell list list \<Rightarrow> int" where
  "detect_header_row data =
     (if data = [] then - 1
      else
        let (best_row, best_score) = detect_header_loop 0 (take 10 data) (- 1, 0)
        in if best_score > 5 / 10 then best_row else - 1)"

text \<open>
  The two callers.  \<open>_analyze_sheet\<close> replaces every empty cell of a worksheet row by
  \<open>None\<close> before the detection: a cell is empty when it is \<open>None\<close> or a string that
  \<open>strip()\<close> leaves empty.  \<open>_analyze_csv_file\<close> hands the rows of \<open>csv.reader\<close> to the
  detection as they are; there an empty field is the empty string.
\<close>

definition is_empty_cell :: "cell \<Rightarrow> bool" where
  "is_empty_cell cell =
     (cell = CNone \<or> (case cell of CStr s \<Rightarrow> py_strip s = [] | _ \<Rightarrow> False))"

definition processed_row :: "cell list \<Rightarrow> cell list" where
  "processed_row row = map (\<lambda>cell. if is_empty_cell cell then CNone else cell) row"

section \<open>core/normalizer.py: the change log\<close>

text \<open>
  A change record is the dict that \<open>_log_change_dict\<close> builds, without its wall-clock
  \<open>timestamp\<close>.  \<open>DataNormalizer\<close> has the one attribute \<open>change_logs\<close>; the older
  \<open>_log_change\<close> tests for an attribute \<open>change_log\<close> that no constructor sets, so it does
  nothing.
\<close>

datatype change_kind =
  number_format | date_format | text_format | remove_empty_rows | sheet_mapping | column_mapping

record ChangeRecord =
  file_name :: pystr
  sheet_name :: pystr
  row_index :: int
  column_name :: pystr
  change_type :: change_kind
  original_value :: cell
  new_value :: cell

record DataNormalizer =
  change_logs :: "ChangeRecord list"

definition log_change_dict ::
  "DataNormalizer \<Rightarrow> pystr \<Rightarrow> pystr \<Rightarrow> int \<Rightarrow> pystr \<Rightarrow> change_kind \<Rightarrow> cell \<Rightarrow> cell \<Rightarrow>
   DataNormalizer" where
  "log_change_dict self fname sname row col kind orig new =
     self\<lparr>change_logs := change_logs self @
       [\<lparr>file_name = fname, sheet_name = sname, row_index = row, column_name = col,
         change_type = kind, original_value = orig, new_value = new\<rparr>]\<rparr>"

text \<open>
  A column standard is a dict; a key that is absent is \<open>None\<close> here, and each reader
  applies the default of its \<open>standard.get\<close>.
\<close>

datatype data_type = TNumber | TDate | TText

datatype case_pattern = upper | lower | title | mixed

record standard =
  data_type :: "data_type option"
  decimal_places :: "int option"
  thousands_separator :: "bool option"
  format :: "pystr option"
  trim_whitespace :: "bool option"
  normalize_spaces :: "bool option"
  case_rule :: "case_pattern option"

definition empty_standard :: standard where
  "empty_standard =
     \<lparr>data_type = None, decimal_places = None, thousands_separator = None, format = None,
      trim_whitespace = None, normalize_spaces = None, case_rule = None\<rparr>"

text \<open>
  The loop that the three column normalisers share: a missing value is skipped; when the
  conversion gives a value it is stored, and it is logged if its \<open>str\<close> differs from the
  \<open>str\<close> of the original.  A series is the list of its values, indexed from 0.
\<close>

fun series_loop ::
  "(cell \<Rightarrow> cell option) \<Rightarrow> change_kind \<Rightarrow> pystr \<Rightarrow> pystr \<Rightarrow> pystr \<Rightarrow>
   nat \<Rightarrow> cell list \<Rightarrow> DataNormalizer \<Rightarrow> cell list \<times> DataNormalizer" where
  "series_loop convert kind col fname sname idx [] self = ([], self)"
| "series_loop convert kind col fname sname idx (v # rest) self =
     (if isna v then
        (case series_loop convert kind col fname sname (Suc idx) rest self of
           (out, self') \<Rightarrow> (v # out, self'))
      else
        (case convert v of
           None \<Rightarrow>
             (case series_loop convert kind col fname sname (Suc idx) rest self of
                (out, self') \<Rightarrow> (v # out, self'))
         | Some converted_value \<Rightarrow>
             (case series_loop convert kind col fname sname (Suc idx) rest
                     (if py_str v \<noteq> py_str converted_value
                      then log_change_dict self fname sname (int idx) col kind v converted_value
                      else self) of
                (out, self') \<Rightarrow> (converted_value # out, self'))))"

section \<open>core/normalizer.py: text format extraction\<close>

text \<open>\<open>str.isupper\<close>, \<open>str.islower\<close> and \<open>str.istitle\<close>, as CPython computes them.\<close>

definition py_isupper :: "pystr \<Rightarrow> bool" where
  "py_isupper s \<longleftrightarrow> list_ex py_isupper_char s \<and> \<not> list_ex py_islower_char s"

definition py_islower :: "pystr \<Rightarrow> bool" where
  "py_islower s \<longleftrightarrow> list_ex py_islower_char s \<and> \<not> list_ex py_isupper_char s"

fun istitle_loop :: "bool \<Rightarrow> bool \<Rightarrow> pystr \<Rightarrow> bool" where
  "istitle_loop previous_is_cased cased [] = cased"
| "istitle_loop previous_is_cased cased (ch # rest) =
     (if py_isupper_char ch then
        (if previous_is_cased then False else istitle_loop True True rest)
      else if py_islower_char ch then
        (if \<not> previous_is_cased then False else istitle_loop True True rest)
      else istitle_loop False cased rest)"

definition py_istitle :: "pystr \<Rightarrow> bool" where
  "py_istitle s = istitle_loop False False s"

text \<open>\<open>re.search(r'\s{2,}', value)\<close>: two adjacent whitespace characters.\<close>

fun has_multiple_spaces :: "pystr \<Rightarrow> bool" where
  "has_multiple_spaces (a # b # rest) =
     ((py_isspace a \<and> py_isspace b) \<or> has_multiple_spaces (b # rest))"
| "has_multiple_spaces _ = False"

text \<open>
  The loop state of \<open>_analyze_text_format\<close> is
  \<open>(has_leading_trailing_spaces, has_multiple_spaces, case_pattern)\<close>; samples that
  are not strings are skipped.
\<close>

fun analyze_text_step ::
  "bool \<times> bool \<times> case_pattern option \<Rightarrow> cell \<Rightarrow> bool \<times> bool \<times> case_pattern option" where
  "analyze_text_step (lead_trail, multi, case_pattern) (CStr v) =
     (lead_trail \<or> v \<noteq> py_strip v,
      multi \<or> has_multiple_spaces v,
      if py_isupper v \<and> case_pattern \<noteq> Some mixed then
        (if case_pattern = None then Some upper else Some mixed)
      else if py_islower v \<and> case_pattern \<noteq> Some mixed then
        (if case_pattern = None then Some lower else Some mixed)
      else if py_istitle v \<and> case_pattern \<noteq> Some mixed then
        (if case_pattern = None then Some title else Some mixed)
      else Some mixed)"
| "analyze_text_step st _ = st"

definition analyze_text_format :: "cell list \<Rightarrow> standard" where
  "analyze_text_format sample_data =
     (let (lead_trail, multi, case_pattern) = foldl analyze_text_step (False, False, None) sample_data
      in empty_standard
           \<lparr>trim_whitespace := Some lead_trail,
            normalize_spaces := Some multi,
            case_rule := (if case_pattern \<noteq> Some mixed then case_pattern else None)\<rparr>)"

section \<open>core/normalizer.py: dates\<close>

definition is_target_format :: "pystr \<Rightarrow> pystr \<Rightarrow> bool" where
  "is_target_format date_str target_format =
     (case strptime date_str target_format of
        None \<Rightarrow> False
      | Some parsed \<Rightarrow> strftime parsed target_format = date_str)"

definition int_of_digits :: "pystr \<Rightarrow> int" where
  "int_of_digits ds = foldl (\<lambda>acc c. acc * 10 + digit_val c) 0 ds"

text \<open>
  The first part of \<open>_parse_date_with_regex\<close>: the guess of \<open>(year, month, day)\<close> from
  the digit runs \<open>numbers\<close>, of which there are at least three.
\<close>

definition guess_year_month_day :: "pystr list \<Rightarrow> int \<times> int \<times> int" where
  "guess_year_month_day numbers =
     (let n0 = int_of_digits (numbers ! 0);
          n1 = int_of_digits (numbers ! 1);
          n2 = int_of_digits (numbers ! 2)
      in if length (numbers ! 0) = 4 then (n0, n1, n2)
         else if length (last numbers) = 4 then (n2, n0, n1)
         else if length (numbers ! 1) = 4 then (n1, n2, n0)
         else
           let year_candidate =
                 (if length (last numbers) = 2 then int_of_digits (last numbers) else n0);
               y = (if year_candidate < 50 then 2000 + year_candidate
                    else 1900 + year_candidate)
           in if length (numbers ! 0) = 2 \<and> year_candidate = n0 then (y, n1, n2)
              else (y, n0, n1))"

definition parse_date_with_regex :: "pystr \<Rightarrow> pystr \<Rightarrow> pystr option" where
  "parse_date_with_regex date_str target_format =
     (let numbers = re_findall py_isdigit date_str
      in if length numbers \<ge> 3 then
           (case guess_year_month_day numbers of
              (y, m, d) \<Rightarrow>
                if 1 \<le> m \<and> m \<le> 12 \<and> 1 \<le> d \<and> d \<le> 31 \<and> 1900 \<le> y \<and> y \<le> 2100 then
                  (case mk_datetime y m d 0 0 0 0 of
                     Some parsed_date \<Rightarrow> Some (strftime parsed_date target_format)
                   | None \<Rightarrow> None)
                else None)
         else None)"

definition date_formats :: "pystr list" where
  "date_formats =
     map ascii [''%Y-%m-%d'', ''%Y/%m/%d'', ''%m/%d/%Y'', ''%d/%m/%Y'',
       ''%Y.%m.%d'', ''%m.%d.%Y'', ''%d.%m.%Y'',
       ''%Y-%m-%d %H:%M:%S'', ''%Y/%m/%d %H:%M:%S'',
       ''%Y.%m.%d %H:%M:%S'', ''%m.%d.%Y %H:%M:%S''] @
     [ascii ''%Y'' @ [0xB144] @ ascii '' %m'' @ [0xC6D4] @ ascii '' %d'' @ [0xC77C],
      ascii ''%Y'' @ [0xB144] @ ascii ''%m'' @ [0xC6D4] @ ascii ''%d'' @ [0xC77C]] @
     map ascii [''%y-%m-%d'', ''%y/%m/%d'', ''%m/%d/%y'', ''%d/%m/%y'',
       ''%y.%m.%d'', ''%m.%d.%y'', ''%d.%m.%y'',
       ''%d.%m.%Y'', ''%d.%m.%y'',
       ''%Y%m%d'', ''%y%m%d'',
       ''%B %d, %Y'', ''%b %d, %Y'']"

text \<open>
  The value of a cell that passes \<open>isinstance(value, (int, float))\<close> and can satisfy
  \<open>1 <= value <= 2958465\<close>: \<open>bool\<close> is a subclass of \<open>int\<close>; an infinite float fails the
  comparison.
\<close>

fun numeric_value :: "cell \<Rightarrow> rat option" where
  "numeric_value (CBool b) = Some (if b then 1 else 0)"
| "numeric_value (CInt n) = Some (rat_of_int n)"
| "numeric_value (CFloat (Fin m k)) = Some (float_val m k)"
| "numeric_value _ = None"

text \<open>The spreadsheet epoch that the claim names.\<close>

definition datetime_1899_12_30 :: datetime where
  "datetime_1899_12_30 =
     \<lparr>year = 1899, month = 12, day = 30, hour = 0, minute = 0, second = 0, microsecond = 0\<rparr>"

definition datetime_1900_1_1 :: datetime where
  "datetime_1900_1_1 =
     \<lparr>year = 1900, month = 1, day = 1, hour = 0, minute = 0, second = 0, microsecond = 0\<rparr>"

text \<open>
  The body of the loop of \<open>_normalize_dates\<close> for one value that is not missing: the
  \<open>converted_value\<close>, or \<open>None\<close> when the value is left as it is (also by \<open>continue\<close> and
  by a caught exception).
\<close>

definition convert_date :: "pystr \<Rightarrow> cell \<Rightarrow> cell option" where
  "convert_date target_format v =
     (case v of
        CDateTime d \<Rightarrow> Some (CStr (strftime d target_format))
      | CStr s \<Rightarrow>
          (let value_str = py_strip s
           in if value_str = [] then None
              else if is_target_format value_str target_format then Some (CStr value_str)
              else
                (case first_some (map (strptime value_str) date_formats) of
                   Some parsed_date \<Rightarrow> Some (CStr (strftime parsed_date target_format))
                 | None \<Rightarrow> map_option CStr (parse_date_with_regex value_str target_format)))
      | _ \<Rightarrow>
          (case numeric_value v of
             None \<Rightarrow> None
           | Some x \<Rightarrow>
               if 1 \<le> x \<and> x \<le> 2958465 then
                 (case datetime_add_days datetime_1900_1_1 (x - 2) of
                    Some excel_date \<Rightarrow> Some (CStr (strftime excel_date target_format))
                  | None \<Rightarrow> None)
               else None))"

definition normalize_dates ::
  "DataNormalizer \<Rightarrow> cell list \<Rightarrow> standard \<Rightarrow> pystr \<Rightarrow> pystr \<Rightarrow> pystr \<Rightarrow>
   cell list \<times> DataNormalizer" where
  "normalize_dates self series std col fname sname =
     (let target_format = (case format std of None \<Rightarrow> ascii ''%Y-%m-%d'' | Some f \<Rightarrow> f)
      in series_loop (convert_date target_format) date_format col fname sname 0 series self)"

text \<open>\<open>_analyze_date_format\<close>: the pattern of the reference column.\<close>

definition common_formats :: "pystr list" where
  "common_formats =
     map ascii [''%Y-%m-%d'', ''%Y/%m/%d'', ''%m/%d/%Y'', ''%d/%m/%Y'', ''%Y.%m.%d'']"

fun first_matching_format :: "pystr list \<Rightarrow> pystr \<Rightarrow> pystr option" where
  "first_matching_format [] v = None"
| "first_matching_format (fmt # fmts) v =
     (if strptime (py_strip v) fmt \<noteq> None then Some fmt else first_matching_format fmts v)"

fun count_format :: "pystr \<Rightarrow> cell list \<Rightarrow> nat" where
  "count_format fmt [] = 0"
| "count_format fmt (CStr v # rest) =
     (if first_matching_format common_formats v = Some fmt then 1 else 0) + count_format fmt rest"
| "count_format fmt (CDateTime d # rest) =
     (if fmt = ascii ''%Y-%m-%d'' then 1 else 0) + count_format fmt rest"
| "count_format fmt (_ # rest) = count_format fmt rest"

text \<open>\<open>max(format_counts, key=format_counts.get)\<close>: the first key with the largest count.\<close>

fun first_max :: "('a \<Rightarrow> nat) \<Rightarrow> 'a \<Rightarrow> 'a list \<Rightarrow> 'a" where
  "first_max f best [] = best"
| "first_max f best (x # xs) = first_max f (if f x > f best then x else best) xs"

definition analyze_date_format :: "cell list \<Rightarrow> standard" where
  "analyze_date_format sample_data =
     empty_standard
       \<lparr>format := Some (first_max (\<lambda>fmt. count_format fmt sample_data)
                        (hd common_formats) (tl common_formats))\<rparr>"

subsection \<open>A value in the target pattern, in the words of the specification\<close>

text \<open>
  The specification writes a target pattern as \<open>YYYY-MM-DD\<close>: a value is in the pattern
  \<open>%Y-%m-%d\<close> when it is a calendar date written with a year of four digits, a month of
  two and a day of two, as in \<open>2024-03-05\<close>.  \<open>canonical_date_text y m d pattern\<close> is the
  date written out in this way, for a pattern made of \<open>%Y\<close>, \<open>%m\<close>, \<open>%d\<close> and separators.
\<close>

definition valid_date :: "int \<Rightarrow> int \<Rightarrow> int \<Rightarrow> bool" where
  "valid_date y m d \<longleftrightarrow>
     1 \<le> y \<and> y \<le> 9999 \<and> 1 \<le> m \<and> m \<le> 12 \<and> 1 \<le> d \<and> d \<le> days_in_month y m"

fun canonical_date_text :: "int \<Rightarrow> int \<Rightarrow> int \<Rightarrow> pystr \<Rightarrow> pystr" where
  "canonical_date_text y m d [] = []"
| "canonical_date_text y m d [c] = [c]"
| "canonical_date_text y m d (c # k # rest) =
     (if c = of_char CHR ''%'' then
        (if k = of_char CHR ''Y'' then zero_pad 4 y
         else if k = of_char CHR ''m'' then zero_pad 2 m
         else if k = of_char CHR ''d'' then zero_pad 2 d
         else [c, k]) @ canonical_date_text y m d rest
      else c # canonical_date_text y m d (k # rest))"

section \<open>core/normalizer.py: numbers\<close>

text \<open>
  \<open>float(s)\<close> for a string: surrounding whitespace is dropped; then an optional sign and
  \<open>inf\<close>, \<open>infinity\<close> or \<open>nan\<close> in any case, or a decimal literal with an optional
  fraction and exponent, in which single underscores may separate digits.  \<open>None\<close> is the
  \<open>ValueError\<close>.
\<close>

fun digit_group :: "pystr \<Rightarrow> bool \<Rightarrow> pystr \<Rightarrow> pystr option" where
  "digit_group [] after_digit acc = (if after_digit then Some acc else None)"
| "digit_group (c # cs) after_digit acc =
     (if py_isdigit c then digit_group cs True (acc @ [c])
      else if c = 95 \<and> after_digit \<and> cs \<noteq> [] \<and> py_isdigit (hd cs)
        then digit_group cs False acc
      else None)"

definition parse_digits :: "pystr \<Rightarrow> pystr option" where
  "parse_digits s = (if s = [] then Some [] else digit_group s False [])"

definition split_at :: "(nat \<Rightarrow> bool) \<Rightarrow> pystr \<Rightarrow> pystr \<times> pystr option" where
  "split_at p s =
     (case dropWhile (\<lambda>c. \<not> p c) s of
        [] \<Rightarrow> (s, None)
      | _ # rest \<Rightarrow> (takeWhile (\<lambda>c. \<not> p c) s, Some rest))"

definition parse_exponent :: "pystr option \<Rightarrow> int option" where
  "parse_exponent e =
     (case e of
        None \<Rightarrow> Some 0
      | Some t \<Rightarrow>
          (let (neg, ds) =
                 (case t of
                    c # r \<Rightarrow> if c = 45 then (True, r) else if c = 43 then (False, r)
                              else (False, t)
                  | [] \<Rightarrow> (False, t))
           in case digit_group ds False [] of
                None \<Rightarrow> None
              | Some d \<Rightarrow> Some (if neg then - int_of_digits d else int_of_digits d)))"

definition parse_decimal :: "pystr \<Rightarrow> (int \<times> nat) option" where
  "parse_decimal s =
     (case split_at (\<lambda>c. c = 101 \<or> c = 69) s of (mant, e) \<Rightarrow>
      case split_at (\<lambda>c. c = 46) mant of (ip, fp) \<Rightarrow>
      case (parse_digits ip, parse_digits (case fp of None \<Rightarrow> [] | Some f \<Rightarrow> f),
            parse_exponent e) of
        (Some i, Some f, Some ex) \<Rightarrow>
          if i = [] \<and> f = [] then None
          else
            let m = int_of_digits (i @ f); k = int (length f) - ex
            in Some (if k \<ge> 0 then (m, nat k) else (m * 10 ^ nat (- k), 0))
      | _ \<Rightarrow> None)"

definition py_float :: "pystr \<Rightarrow> pyfloat option" where
  "py_float s0 =
     (let s = py_strip s0;
          (neg, body) =
            (case s of
               c # r \<Rightarrow> if c = 45 then (True, r) else if c = 43 then (False, r) else (False, s)
             | [] \<Rightarrow> (False, s));
          low = py_lower body
      in if low = ascii ''inf'' \<or> low = ascii ''infinity'' then Some (Inf neg)
         else if low = ascii ''nan'' then Some NaN
         else
           (case parse_decimal body of
              None \<Rightarrow> None
            | Some (m, k) \<Rightarrow> Some (Fin (if neg then - m else m) k)))"

text \<open>
  \<open>round(x, ndigits)\<close> with \<open>ndigits \<ge> 0\<close>, on the decimal value, ties to even; infinities
  and NaN are returned as they are.
\<close>

fun py_round :: "pyfloat \<Rightarrow> nat \<Rightarrow> pyfloat" where
  "py_round (Fin m k) nd =
     (if k \<le> nd then Fin m k
      else Fin (round_half_even (rat_of_int m / 10 ^ (k - nd))) nd)"
| "py_round f nd = f"

text \<open>
  The body of the loop of \<open>_normalize_numbers\<close> for one value that is not missing.
  \<open>decimal_places\<close> comes from \<open>standard.get('decimal_places', 2)\<close>.
\<close>

definition convert_number :: "int \<Rightarrow> cell \<Rightarrow> cell option" where
  "convert_number places v =
     (let converted_value =
            (case v of
               CStr s \<Rightarrow> py_float (filter (\<lambda>c. c \<noteq> 44) s)
             | CBool b \<Rightarrow> Some (Fin (if b then 1 else 0) 0)
             | CInt n \<Rightarrow> Some (Fin n 0)
             | CFloat f \<Rightarrow> Some f
             | _ \<Rightarrow> None)
      in case converted_value of
           None \<Rightarrow> None
         | Some f \<Rightarrow> Some (CFloat (if places \<ge> 0 then py_round f (nat places) else f)))"

definition normalize_numbers ::
  "DataNormalizer \<Rightarrow> cell list \<Rightarrow> standard \<Rightarrow> pystr \<Rightarrow> pystr \<Rightarrow> pystr \<Rightarrow>
   cell list \<times> DataNormalizer" where
  "normalize_numbers self series std col fname sname =
     (let places = (case decimal_places std of None \<Rightarrow> 2 | Some p \<Rightarrow> p)
      in series_loop (convert_number places) number_format col fname sname 0 series self)"

section \<open>core/normalizer.py: text and whole frames\<close>

text \<open>\<open>str.title()\<close>, and \<open>re.sub(r'\s+', ' ', s)\<close>.\<close>

fun title_loop :: "bool \<Rightarrow> pystr \<Rightarrow> pystr" where
  "title_loop previous_is_cased [] = []"
| "title_loop previous_is_cased (c # cs) =
     (if py_isupper_char c \<or> py_islower_char c then
        (if previous_is_cased then (if py_isupper_char c then c + 32 else c)
         else (if py_islower_char c then c - 32 else c)) # title_loop True cs
      else c # title_loop False cs)"

definition py_title :: "pystr \<Rightarrow> pystr" where
  "py_title s = title_loop False s"

fun collapse_spaces :: "bool \<Rightarrow> pystr \<Rightarrow> pystr" where
  "collapse_spaces in_run [] = []"
| "collapse_spaces in_run (c # cs) =
     (if py_isspace c then
        (if in_run then collapse_spaces True cs else 32 # collapse_spaces True cs)
      else c # collapse_spaces False cs)"

text \<open>The body of the loop of \<open>_normalize_text\<close>: every value that is not missing is converted.\<close>

definition convert_text :: "standard \<Rightarrow> cell \<Rightarrow> cell option" where
  "convert_text std v =
     (let s0 = py_str v;
          s1 = (if (case trim_whitespace std of None \<Rightarrow> True | Some b \<Rightarrow> b)
                then py_strip s0 else s0);
          s2 = (if (case normalize_spaces std of None \<Rightarrow> True | Some b \<Rightarrow> b)
                then collapse_spaces False s1 else s1);
          s3 = (case case_rule std of
                  Some upper \<Rightarrow> py_upper s2
                | Some lower \<Rightarrow> py_lower s2
                | Some title \<Rightarrow> py_title s2
                | _ \<Rightarrow> s2)
      in Some (CStr s3))"

definition normalize_text ::
  "DataNormalizer \<Rightarrow> cell list \<Rightarrow> standard \<Rightarrow> pystr \<Rightarrow> pystr \<Rightarrow> pystr \<Rightarrow>
   cell list \<times> DataNormalizer" where
  "normalize_text self series std col fname sname =
     series_loop (convert_text std) text_format col fname sname 0 series self"

text \<open>\<open>_normalize_column\<close>: the type defaults to text.\<close>

definition normalize_column ::
  "DataNormalizer \<Rightarrow> cell list \<Rightarrow> standard \<Rightarrow> pystr \<Rightarrow> pystr \<Rightarrow> pystr \<Rightarrow>
   cell list \<times> DataNormalizer" where
  "normalize_column self series std col fname sname =
     (case data_type std of
        Some TNumber \<Rightarrow> normalize_numbers self series std col fname sname
      | Some TDate \<Rightarrow> normalize_dates self series std col fname sname
      | _ \<Rightarrow> normalize_text self series std col fname sname)"

text \<open>
  A data frame is the list of its columns in order, each a name and the series of its
  values; all series have the same length and the index is \<open>0, 1, ...\<close>.
\<close>

type_synonym dataframe = "(pystr \<times> cell list) list"

definition nrows :: "dataframe \<Rightarrow> nat" where
  "nrows df = (case df of [] \<Rightarrow> 0 | (c, s) # _ \<Rightarrow> length s)"

fun normalize_columns ::
  "DataNormalizer \<Rightarrow> dataframe \<Rightarrow> (pystr \<times> standard) list \<Rightarrow> pystr \<Rightarrow> pystr \<Rightarrow>
   dataframe \<times> DataNormalizer" where
  "normalize_columns self [] format_standards fname sname = ([], self)"
| "normalize_columns self ((col, series) # rest) format_standards fname sname =
     (case map_of format_standards col of
        None \<Rightarrow>
          (case normalize_columns self rest format_standards fname sname of
             (out, self') \<Rightarrow> ((col, series) # out, self'))
      | Some std \<Rightarrow>
          (case normalize_column self series std col fname sname of
             (series', self1) \<Rightarrow>
               (case normalize_columns self1 rest format_standards fname sname of
                  (out, self') \<Rightarrow> ((col, series') # out, self'))))"

text \<open>\<open>dropna(how='all')\<close> and \<open>reset_index(drop=True)\<close>: the rows with a value are kept.\<close>

definition dropna_all :: "dataframe \<Rightarrow> dataframe" where
  "dropna_all df =
     (let keep = filter (\<lambda>i. \<not> list_all (\<lambda>(c, s). isna (s ! i)) df) [0..<nrows df]
      in map (\<lambda>(c, s). (c, map (\<lambda>i. s ! i) keep)) df)"

definition clean_data ::
  "DataNormalizer \<Rightarrow> dataframe \<Rightarrow> pystr \<Rightarrow> pystr \<Rightarrow> dataframe \<times> DataNormalizer" where
  "clean_data self df fname sname =
     (let empty_rows_before = nrows df;
          cleaned_df = dropna_all df;
          empty_rows_after = nrows cleaned_df
      in (cleaned_df,
          if empty_rows_before \<noteq> empty_rows_after
          then log_change_dict self fname sname (- 1) (ascii ''ALL_COLUMNS'') remove_empty_rows
                 (CStr (str_nat empty_rows_before @ [0xD589]))
                 (CStr (str_nat empty_rows_after @ [0xD589]))
          else self))"

text \<open>\<open>normalize_data\<close> starts by assigning \<open>self.change_logs = []\<close>.\<close>

definition normalize_data ::
  "DataNormalizer \<Rightarrow> dataframe \<Rightarrow> (pystr \<times> standard) list \<Rightarrow> pystr \<Rightarrow> pystr \<Rightarrow>
   dataframe \<times> DataNormalizer" where
  "normalize_data self df format_standards fname sname =
     (case normalize_columns (self\<lparr>change_logs := []\<rparr>) df format_standards fname sname of
        (normalized_df, self1) \<Rightarrow> clean_data self1 normalized_df fname sname)"

section \<open>core/processor.py: the structure of a file\<close>

record SheetInfo =
  name :: pystr
  header_row :: int
  data_start_row :: int
  columns :: "pystr list"
  row_count :: int
  data_types :: "(pystr \<times> data_type) list"
  sample_data :: "cell list list"

record FileStructure =
  file_path :: pystr
  file_name_fs :: pystr
  sheets :: "SheetInfo list"
  error_message :: "pystr option"

text \<open>
  The files on disk are outside the program.  \<open>read_file_structure\<close> and
  \<open>read_sheet_data\<close> are the two readers of \<open>ExcelProcessor\<close> as functions of the path:
  \<open>read_file_structure\<close> catches every exception and reports it in \<open>error_message\<close>;
  \<open>read_sheet_data\<close> raises, which is \<open>None\<close> here.  \<open>difflib_ratio\<close> is
  \<open>SequenceMatcher(None, a, b).ratio()\<close>.
\<close>

record env =
  read_file_structure :: "pystr \<Rightarrow> FileStructure"
  read_sheet_data :: "pystr \<Rightarrow> pystr \<Rightarrow> dataframe option"
  difflib_ratio :: "pystr \<Rightarrow> pystr \<Rightarrow> rat"

section \<open>core/controller.py: the merge run\<close>

record MergeController =
  processor :: ExcelProcessor
  normalizer :: DataNormalizer

text \<open>\<open>Path(p).name\<close>: the part after the last separator.\<close>

definition path_name :: "pystr \<Rightarrow> pystr" where
  "path_name p = rev (takeWhile (\<lambda>c. c \<noteq> 47 \<and> c \<noteq> 92) (rev p))"

subsection \<open>Compatibility validation\<close>

text \<open>
  An issue is the message that \<open>_validate_files_compatibility\<close> appends: the position of
  the file, counted from 1, its name, and what went wrong.  The result is the dict that
  the function returns: \<open>success\<close> is true only for \<open>ValidationPassed\<close>.
\<close>

datatype issue =
    StructureAnalysisFailed nat pystr
  | NoMatchingSheet nat pystr

datatype validation_result =
    ValidationPassed
  | ReferenceAnalysisFailed pystr
  | CompatibilityIssues "issue list"

definition success :: "validation_result \<Rightarrow> bool" where
  "success r = (r = ValidationPassed)"

fun compatibility_issues ::
  "env \<Rightarrow> MergeController \<Rightarrow> pystr list \<Rightarrow> nat \<Rightarrow> pystr list \<Rightarrow> issue list" where
  "compatibility_issues e self ref_sheet_names i [] = []"
| "compatibility_issues e self ref_sheet_names i (merge_file # rest) =
     (let file_structure = read_file_structure e merge_file
      in if truthy (error_message file_structure)
         then StructureAnalysisFailed i (path_name merge_file) #
              compatibility_issues e self ref_sheet_names (Suc i) rest
         else
           let merge_sheet_names = map name (sheets file_structure);
               sheet_mappings =
                 match_sheets (difflib_ratio e) (processor self) ref_sheet_names
                   merge_sheet_names None
           in if sheet_mappings = []
              then NoMatchingSheet i (path_name merge_file) #
                   compatibility_issues e self ref_sheet_names (Suc i) rest
              else compatibility_issues e self ref_sheet_names (Suc i) rest)"

definition validate_files_compatibility ::
  "env \<Rightarrow> MergeController \<Rightarrow> pystr \<Rightarrow> pystr list \<Rightarrow> validation_result" where
  "validate_files_compatibility e self reference_file merge_files =
     (let ref_structure = read_file_structure e reference_file
      in if truthy (error_message ref_structure)
         then ReferenceAnalysisFailed (the (error_message ref_structure))
         else
           let ref_sheet_names = map name (sheets ref_structure);
               issues = compatibility_issues e self ref_sheet_names 1 merge_files
           in if issues \<noteq> [] then CompatibilityIssues issues else ValidationPassed)"

subsection \<open>The first two stages of the run\<close>

text \<open>
  \<open>_merge_process\<close> up to the start of stage 3, the extraction of the format standards.
  \<open>cancelled k\<close> is what the poll of \<open>is_cancelled\<close> after stage \<open>k\<close> sees.  An exception
  raised in a stage is caught at the end of \<open>_merge_process\<close> and handed to
  \<open>_handle_error\<close>: no later stage runs, and the run has failed.
\<close>

datatype failure =
    ReferenceFileAnalysisFailed pystr
  | NoValidSheets
  | CompatibilityValidationFailed validation_result

datatype run_state =
    Failed failure
  | Cancelled
  | ExtractingFormatStandards FileStructure

definition merge_process ::
  "env \<Rightarrow> MergeController \<Rightarrow> (nat \<Rightarrow> bool) \<Rightarrow> pystr \<Rightarrow> pystr list \<Rightarrow> run_state" where
  "merge_process e self cancelled reference_file merge_files =
     (let reference_structure = read_file_structure e reference_file
      in if truthy (error_message reference_structure)
         then Failed (ReferenceFileAnalysisFailed (the (error_message reference_structure)))
         else if sheets reference_structure = [] then Failed NoValidSheets
         else
           let reference_structure = reference_structure\<lparr>file_path := reference_file\<rparr>
           in if cancelled 1 then Cancelled
              else
                let validation_result =
                      validate_files_compatibility e self reference_file merge_files
                in if \<not> success validation_result
                   then Failed (CompatibilityValidationFailed validation_result)
                   else if cancelled 2 then Cancelled
                   else ExtractingFormatStandards reference_structure)"

subsection \<open>Processing one candidate file\<close>

text \<open>The two logging loops of \<open>_process_merge_file\<close>: a mapping is logged when the names differ.\<close>

fun log_sheet_mappings ::
  "DataNormalizer \<Rightarrow> pystr \<Rightarrow> (pystr \<times> pystr) list \<Rightarrow> DataNormalizer" where
  "log_sheet_mappings nz fname [] = nz"
| "log_sheet_mappings nz fname ((ref_sheet, target_sheet) # rest) =
     log_sheet_mappings
       (if ref_sheet \<noteq> target_sheet
        then log_change_dict nz fname ref_sheet (- 1) (ascii ''SHEET_NAME'') sheet_mapping
               (CStr target_sheet) (CStr ref_sheet)
        else nz)
       fname rest"

fun log_column_mappings ::
  "DataNormalizer \<Rightarrow> pystr \<Rightarrow> pystr \<Rightarrow> (pystr \<times> pystr) list \<Rightarrow> DataNormalizer" where
  "log_column_mappings nz fname ref_sheet_name [] = nz"
| "log_column_mappings nz fname ref_sheet_name ((ref_col, target_col) # rest) =
     log_column_mappings
       (if ref_col \<noteq> target_col
        then log_change_dict nz fname ref_sheet_name (- 1) ref_col column_mapping
               (CStr target_col) (CStr ref_col)
        else nz)
       fname ref_sheet_name rest"

text \<open>
  \<open>_align_columns\<close>: the reference columns in order, each with the series of the column
  mapped to it, or all missing.  The frame gets its index from the first series that is
  assigned; with no mapped column it has no rows.
\<close>

definition mapped_series :: "dataframe \<Rightarrow> (pystr \<times> pystr) list \<Rightarrow> pystr \<Rightarrow> cell list option" where
  "mapped_series df column_mappings ref_col =
     (case map_of column_mappings ref_col of
        None \<Rightarrow> None
      | Some source_col \<Rightarrow> map_of df source_col)"

definition align_columns :: "dataframe \<Rightarrow> pystr list \<Rightarrow> (pystr \<times> pystr) list \<Rightarrow> dataframe" where
  "align_columns df reference_columns column_mappings =
     (let n = (if list_ex (\<lambda>ref_col. mapped_series df column_mappings ref_col \<noteq> None)
                    reference_columns
               then nrows df else 0)
      in foldl (\<lambda>aligned_df ref_col.
                  AList.update ref_col
                    (case mapped_series df column_mappings ref_col of
                       Some series \<Rightarrow> series
                     | None \<Rightarrow> replicate n CNone)
                    aligned_df)
           [] reference_columns)"

text \<open>\<open>df.empty\<close>: no column or no row.\<close>

definition df_empty :: "dataframe \<Rightarrow> bool" where
  "df_empty df = (df = [] \<or> nrows df = 0)"

text \<open>
  The second loop of \<open>_process_merge_file\<close>, over the sheet mappings.  The result is
  \<open>None\<close> when an exception leaves the loop: \<open>read_sheet_data\<close> raised, or
  \<open>format_standards\<close> has no entry for the reference sheet.  The normaliser keeps what was
  done to it up to that point.
\<close>

fun process_sheets ::
  "env \<Rightarrow> MergeController \<Rightarrow> pystr \<Rightarrow> pystr \<Rightarrow> FileStructure \<Rightarrow>
   (pystr \<times> (pystr \<times> standard) list) list \<Rightarrow> (pystr \<times> pystr) list \<Rightarrow>
   (pystr \<times> dataframe) list \<Rightarrow> MergeController \<times> (pystr \<times> dataframe) list option" where
  "process_sheets e self merge_file fname reference_structure format_standards [] result_data =
     (self, Some result_data)"
| "process_sheets e self merge_file fname reference_structure format_standards
     ((ref_sheet_name, target_sheet_name) # rest) result_data =
     (case find (\<lambda>s. name s = ref_sheet_name) (sheets reference_structure) of
        None \<Rightarrow>
          process_sheets e self merge_file fname reference_structure format_standards rest
            result_data
      | Some ref_sheet \<Rightarrow>
          (case read_sheet_data e merge_file target_sheet_name of
             None \<Rightarrow> (self, None)
           | Some df \<Rightarrow>
               if df_empty df
               then process_sheets e self merge_file fname reference_structure format_standards
                      rest result_data
               else
                 let column_mappings =
                       match_columns (difflib_ratio e) (processor self) (columns ref_sheet)
                         (map fst df) None;
                     self1 = self\<lparr>normalizer :=
                       log_column_mappings (normalizer self) fname ref_sheet_name
                         column_mappings\<rparr>;
                     aligned_df = align_columns df (columns ref_sheet) column_mappings
                 in case map_of format_standards ref_sheet_name of
                      None \<Rightarrow> (self1, None)
                    | Some sheet_standards \<Rightarrow>
                        (case normalize_data (normalizer self1) aligned_df sheet_standards
                                fname ref_sheet_name of
                           (normalized_df, nz) \<Rightarrow>
                             process_sheets e (self1\<lparr>normalizer := nz\<rparr>) merge_file fname
                               reference_structure format_standards rest
                               (AList.update ref_sheet_name
                                  (AList.update (ascii ''_source_file'')
                                     (replicate (nrows normalized_df) (CStr fname))
                                     normalized_df)
                                  result_data))))"

definition process_merge_file ::
  "env \<Rightarrow> MergeController \<Rightarrow> pystr \<Rightarrow> FileStructure \<Rightarrow>
   (pystr \<times> (pystr \<times> standard) list) list \<Rightarrow>
   MergeController \<times> (pystr \<times> dataframe) list option" where
  "process_merge_file e self merge_file reference_structure format_standards =
     (let fname = path_name merge_file;
          file_structure = read_file_structure e merge_file
      in if truthy (error_message file_structure) then (self, None)
         else
           let reference_sheet_names = map name (sheets reference_structure);
               target_sheet_names = map name (sheets file_structure);
               sheet_mappings =
                 match_sheets (difflib_ratio e) (processor self) reference_sheet_names
                   target_sheet_names None;
               self1 = self\<lparr>normalizer :=
                 log_sheet_mappings (normalizer self) fname sheet_mappings\<rparr>
           in process_sheets e self1 merge_file fname reference_structure format_standards
                sheet_mappings [])"

text \<open>
  Stage 4 of \<open>_merge_process\<close> in a run that is not cancelled: every candidate file in
  turn; the frames of a file are appended to \<open>merged_data\<close> sheet by sheet, a file that
  raises is listed in \<open>processing_errors\<close>.  The later stages read \<open>change_logs\<close> and do
  not assign it.
\<close>

fun append_file_data ::
  "(pystr \<times> dataframe) list \<Rightarrow> (pystr \<times> dataframe list) list \<Rightarrow>
   (pystr \<times> dataframe list) list" where
  "append_file_data [] merged_data = merged_data"
| "append_file_data ((sname, df) # rest) merged_data =
     append_file_data rest
       (AList.update sname
          ((case map_of merged_data sname of None \<Rightarrow> [] | Some dfs \<Rightarrow> dfs) @ [df])
          merged_data)"

fun process_merge_files ::
  "env \<Rightarrow> MergeController \<Rightarrow> pystr list \<Rightarrow> FileStructure \<Rightarrow>
   (pystr \<times> (pystr \<times> standard) list) list \<Rightarrow>
   (pystr \<times> dataframe list) list \<times> pystr list \<Rightarrow>
   MergeController \<times> (pystr \<times> dataframe list) list \<times> pystr list" where
  "process_merge_files e self [] reference_structure format_standards
     (merged_data, processing_errors) = (self, merged_data, processing_errors)"
| "process_merge_files e self (merge_file # rest) reference_structure format_standards
     (merged_data, processing_errors) =
     (case process_merge_file e self merge_file reference_structure format_standards of
        (self1, Some file_data) \<Rightarrow>
          process_merge_files e self1 rest reference_structure format_standards
            (append_file_data file_data merged_data, processing_errors)
      | (self1, None) \<Rightarrow>
          process_merge_files e self1 rest reference_structure format_standards
            (merged_data, processing_errors @ [path_name merge_file]))"

section \<open>An example run\<close>

text \<open>
  Three files, each with one sheet of the two rows \<open>id, name\<close> and \<open>A1, Bob\<close>
  (\<open>example_rows\<close>).  Header detection finds the header in row 0, so the columns are
  \<open>id\<close> and \<open>name\<close>, there is one data row, and both columns are text; reading the
  sheet gives the frame of that row, reading any other sheet name raises.  The sheet is
  called \<open>Data\<close> in the reference \<open>ref.xlsx\<close>, \<open>data\<close> in the candidate \<open>b.xlsx\<close>, and
  \<open>Q\<close> in the candidate \<open>c.xlsx\<close>.  The names \<open>Data\<close> and \<open>Q\<close> share no character, and
  neither do \<open>id\<close> and \<open>name\<close>, so the ratio of \<open>difflib\<close> is 0 for both pairs, the only
  ones that reach it.
\<close>

definition example_rows :: "cell list list" where
  "example_rows =
     [[CStr (ascii ''id''), CStr (ascii ''name'')], [CStr (ascii ''A1''), CStr (ascii ''Bob'')]]"

definition example_sheet :: "pystr \<Rightarrow> SheetInfo" where
  "example_sheet n =
     \<lparr>name = n, header_row = 0, data_start_row = 1,
      columns = [ascii ''id'', ascii ''name''], row_count = 1,
      data_types = [(ascii ''id'', TText), (ascii ''name'', TText)],
      sample_data = [[CStr (ascii ''A1''), CStr (ascii ''Bob'')]]\<rparr>"

definition example_structure :: "pystr \<Rightarrow> FileStructure" where
  "example_structure p =
     \<lparr>file_path = p, file_name_fs = path_name p,
      sheets = [example_sheet
                  (if p = ascii ''c.xlsx'' then ascii ''Q''
                   else if p = ascii ''b.xlsx'' then ascii ''data'' else ascii ''Data'')],
      error_message = None\<rparr>"

definition example_env :: env where
  "example_env =
     \<lparr>read_file_structure = example_structure,
      read_sheet_data =
        (\<lambda>p s. if [s] = map name (sheets (example_structure p))
                then Some [(ascii ''id'', [CStr (ascii ''A1'')]),
                           (ascii ''name'', [CStr (ascii ''Bob'')])]
                else None),
      difflib_ratio = (\<lambda>a b. 0)\<rparr>"

definition example_controller :: MergeController where
  "example_controller = \<lparr>processor = init_ExcelProcessor, normalizer = \<lparr>change_logs = []\<rparr>\<rparr>"

text \<open>The standards that \<open>_extract_format_standards\<close> falls back to: the type of each column.\<close>

definition example_standards :: "(pystr \<times> (pystr \<times> standard) list) list" where
  "example_standards =
     [(ascii ''Data'',
       [(ascii ''id'', empty_standard\<lparr>data_type := Some TText\<rparr>),
        (ascii ''name'', empty_standard\<lparr>data_type := Some TText\<rparr>)])]"

section \<open>Rules for evaluating the library models\<close>

lemmas char_defs = ascii_def py_isdigit_def py_isspace_def py_isupper_char_def
  py_islower_char_def py_lower_def py_strip_def digit_val_def in_range_def

lemmas cal_defs = mk_datetime_def days_in_month_def is_leap_def DAYS_IN_MONTH_def

lemmas fmt_defs = strftime_directive_def zero_pad_def str_int_def str_nat.simps Let_def

lemmas parse_defs = strptime_def known_directives_def dir_candidates_def alt1_def alt2_def
  name_alts_def month_name_def month_abbr_def

section \<open>The regex fallback of date parsing\<close>

lemma parse_date_with_regex_Some_bounds:
  "parse_date_with_regex date_str target_format \<noteq> None \<longrightarrow>
     (case guess_year_month_day (re_findall py_isdigit date_str) of
        (y, m, d) \<Rightarrow> 1 \<le> m \<and> m \<le> 12 \<and> 1 \<le> d \<and> d \<le> 31 \<and> 1900 \<le> y \<and> y \<le> 2100)"
  unfolding parse_date_with_regex_def Let_def
  by (cases "guess_year_month_day (re_findall py_isdigit date_str)") (simp split: if_splits)

lemma parse_date_with_regex_year_None:
  "(case guess_year_month_day (re_findall py_isdigit date_str) of
      (y, m, d) \<Rightarrow> y < 1900 \<or> 2100 < y) \<longrightarrow>
   parse_date_with_regex date_str target_format = None"
  unfolding parse_date_with_regex_def Let_def
  by (cases "guess_year_month_day (re_findall py_isdigit date_str)") auto

lemma normalize_dates_regex_None:
  "py_strip s \<noteq> [] \<and> \<not> is_target_format (py_strip s) target_format \<and>
   first_some (map (strptime (py_strip s)) date_formats) = None \<and>
   parse_date_with_regex (py_strip s) target_format = None \<longrightarrow>
     normalize_dates self [CStr s] (empty_standard\<lparr>format := Some target_format\<rparr>)
       col fname sname = ([CStr s], self)"
  by (simp add: normalize_dates_def convert_date_def Let_def)

text \<open>
  C10. The regex fallback returns a date only when the inferred month is in 1..12, the
  day in 1..31 and the year in 1900..2100.  Whenever the inferred year is outside
  1900..2100 it returns \<open>None\<close>; and a string cell that reaches the fallback (it is not
  empty, not in the target pattern and matches none of the known patterns) and gets
  \<open>None\<close> from it is left unchanged by date normalisation, with nothing logged.
\<close>

theorem parse_date_with_regex_bounds:
  "(parse_date_with_regex date_str target_format \<noteq> None \<longrightarrow>
      (case guess_year_month_day (re_findall py_isdigit date_str) of
         (y, m, d) \<Rightarrow> 1 \<le> m \<and> m \<le> 12 \<and> 1 \<le> d \<and> d \<le> 31 \<and> 1900 \<le> y \<and> y \<le> 2100)) \<and>
   ((case guess_year_month_day (re_findall py_isdigit date_str) of
       (y, m, d) \<Rightarrow> y < 1900 \<or> 2100 < y) \<longrightarrow>
      parse_date_with_regex date_str target_format = None) \<and>
   (py_strip s \<noteq> [] \<and> \<not> is_target_format (py_strip s) target_format \<and>
    first_some (map (strptime (py_strip s)) date_formats) = None \<and>
    parse_date_with_regex (py_strip s) target_format = None \<longrightarrow>
      normalize_dates self [CStr s] (empty_standard\<lparr>format := Some target_format\<rparr>)
        col fname sname = ([CStr s], self))"
proof (intro conjI)
  show "parse_date_with_regex date_str target_format \<noteq> None \<longrightarrow>
      (case guess_year_month_day (re_findall py_isdigit date_str) of
         (y, m, d) \<Rightarrow> 1 \<le> m \<and> m \<le> 12 \<and> 1 \<le> d \<and> d \<le> 31 \<and> 1900 \<le> y \<and> y \<le> 2100)"
    by (rule parse_date_with_regex_Some_bounds)
  show "(case guess_year_month_day (re_findall py_isdigit date_str) of
       (y, m, d) \<Rightarrow> y < 1900 \<or> 2100 < y) \<longrightarrow>
      parse_date_with_regex date_str target_format = None"
    by (rule parse_date_with_regex_year_None)
  show "py_strip s \<noteq> [] \<and> \<not> is_target_format (py_strip s) target_format \<and>
    first_some (map (strptime (py_strip s)) date_formats) = None \<and>
    parse_date_with_regex (py_strip s) target_format = None \<longrightarrow>
      normalize_dates self [CStr s] (empty_standard\<lparr>format := Some target_format\<rparr>)
        col fname sname = ([CStr s], self)"
    by (rule normalize_dates_regex_None)
qed

theorem parse_date_with_regex_bounds_witness:
  "parse_date_with_regex (ascii ''2024 x 3 y 5'') (ascii ''%Y-%m-%d'') \<noteq> None \<and>
   guess_year_month_day (re_findall py_isdigit (ascii ''2024 x 3 y 5'')) = (2024, 3, 5) \<and>
   guess_year_month_day (re_findall py_isdigit (ascii ''3-5-2150'')) = (2150, 3, 5) \<and>
   parse_date_with_regex (ascii ''3-5-2150'') (ascii ''%Y-%m-%d'') = None \<and>
   py_strip (ascii ''3-5-2150'') \<noteq> [] \<and>
   \<not> is_target_format (py_strip (ascii ''3-5-2150'')) (ascii ''%Y-%m-%d'') \<and>
   first_some (map (strptime (py_strip (ascii ''3-5-2150''))) date_formats) = None \<and>
   normalize_dates \<lparr>change_logs = []\<rparr> [CStr (ascii ''3-5-2150'')]
     (empty_standard\<lparr>format := Some (ascii ''%Y-%m-%d'')\<rparr>)
     (ascii ''date'') (ascii ''b.xlsx'') (ascii ''Sheet1'')
     = ([CStr (ascii ''3-5-2150'')], \<lparr>change_logs = []\<rparr>)"
proof -
  have p1: "parse_date_with_regex (ascii ''2024 x 3 y 5'') (ascii ''%Y-%m-%d'') \<noteq> None"
    by (simp add: parse_date_with_regex_def guess_year_month_day_def re_findall_def
        int_of_digits_def char_defs cal_defs fmt_defs)
  have g1: "guess_year_month_day (re_findall py_isdigit (ascii ''2024 x 3 y 5'')) = (2024, 3, 5)"
    by (simp add: guess_year_month_day_def re_findall_def int_of_digits_def char_defs Let_def)
  have g2: "guess_year_month_day (re_findall py_isdigit (ascii ''3-5-2150'')) = (2150, 3, 5)"
    by (simp add: guess_year_month_day_def re_findall_def int_of_digits_def char_defs Let_def)
  have st: "py_strip (ascii ''3-5-2150'') = ascii ''3-5-2150''"
    by (simp add: char_defs)
  have ne: "ascii ''3-5-2150'' \<noteq> []"
    by (simp add: ascii_def)
  have nt: "\<not> is_target_format (ascii ''3-5-2150'') (ascii ''%Y-%m-%d'')"
    by (simp add: is_target_format_def parse_defs char_defs cal_defs)
  have nf: "first_some (map (strptime (ascii ''3-5-2150'')) date_formats) = None"
    by (simp add: date_formats_def parse_defs char_defs cal_defs enumerate_eq_zip)
  have yr: "case guess_year_month_day (re_findall py_isdigit (ascii ''3-5-2150'')) of
      (y, m, d) \<Rightarrow> y < 1900 \<or> 2100 < y"
    by (simp add: g2)
  note inst = parse_date_with_regex_bounds
    [of "ascii ''3-5-2150''" "ascii ''%Y-%m-%d''" "ascii ''3-5-2150''" "\<lparr>change_logs = []\<rparr>"
        "ascii ''date''" "ascii ''b.xlsx''" "ascii ''Sheet1''"]
  from inst yr have p2: "parse_date_with_regex (ascii ''3-5-2150'') (ascii ''%Y-%m-%d'') = None"
    by blast
  from inst p2 ne nt nf st have n:
    "normalize_dates \<lparr>change_logs = []\<rparr> [CStr (ascii ''3-5-2150'')]
       (empty_standard\<lparr>format := Some (ascii ''%Y-%m-%d'')\<rparr>)
       (ascii ''date'') (ascii ''b.xlsx'') (ascii ''Sheet1'')
     = ([CStr (ascii ''3-5-2150'')], \<lparr>change_logs = []\<rparr>)"
    by simp
  from p1 g1 g2 p2 ne nt nf st n show ?thesis by simp
qed

section \<open>The loop over a series\<close>

lemma series_loop_result_length:
  "series_loop convert kind col fname sname idx series self = (out, self') \<Longrightarrow>
   length out = length series"
  by (induction series arbitrary: idx self out self')
     (auto split: option.splits prod.splits if_splits)

lemma series_loop_length:
  "length (fst (series_loop convert kind col fname sname idx series self)) = length series"
  using series_loop_result_length[of convert kind col fname sname idx series self]
  by (cases "series_loop convert kind col fname sname idx series self") simp

lemma series_loop_result_nth:
  "series_loop convert kind col fname sname idx series self = (out, self') \<Longrightarrow>
   i < length series \<Longrightarrow> \<not> isna (series ! i) \<Longrightarrow> convert (series ! i) = Some c \<Longrightarrow>
   out ! i = c"
proof (induction series arbitrary: i idx self out self')
  case Nil
  then show ?case by simp
next
  case (Cons v rest)
  show ?case
  proof (cases i)
    case 0
    then show ?thesis using Cons.prems by (auto split: option.splits prod.splits if_splits)
  next
    case (Suc j)
    then have j: "j < length rest" "\<not> isna (rest ! j)" "convert (rest ! j) = Some c"
      using Cons.prems by simp_all
    from Cons.prems(1) obtain idx' self1 out' where
      r: "series_loop convert kind col fname sname idx' rest self1 = (out', self')"
      and o: "\<exists>w. out = w # out'"
      by (auto split: option.splits prod.splits if_splits)
    from Cons.IH[OF r j] have "out' ! j = c" .
    with o Suc show ?thesis by auto
  qed
qed

lemma series_loop_nth:
  assumes "i < length series" "\<not> isna (series ! i)" "convert (series ! i) = Some c"
  shows "fst (series_loop convert kind col fname sname idx series self) ! i = c"
  using series_loop_result_nth[of convert kind col fname sname idx series self _ _ i c] assms
  by (cases "series_loop convert kind col fname sname idx series self") simp

lemma series_loop_unchanged:
  assumes "\<forall>v \<in> set series. convert v = Some v"
  shows "series_loop convert kind col fname sname idx series self = (series, self)"
  using assms by (induction series arbitrary: idx self) simp_all

text \<open>
  Every record that the loop appends belongs to a cell of the series: it carries the row
  of the cell, and the cell was converted to a value whose \<open>str\<close> differs from its own.
\<close>

lemma series_loop_records:
  "series_loop convert kind col fname sname idx series self = (out, self') \<Longrightarrow>
   \<exists>new. change_logs self' = change_logs self @ new \<and>
     (\<forall>r \<in> set new. \<exists>j < length series. row_index r = int (idx + j) \<and>
        convert (series ! j) = Some (new_value r) \<and>
        py_str (series ! j) \<noteq> py_str (new_value r))"
proof (induction series arbitrary: idx self out self')
  case Nil
  then show ?case by simp
next
  case (Cons v rest)
  from Cons.prems obtain self1 out' where
    r: "series_loop convert kind col fname sname (Suc idx) rest self1 = (out', self')"
    and s: "self1 = self \<or>
        (\<exists>c. convert v = Some c \<and> py_str v \<noteq> py_str c \<and>
             self1 = log_change_dict self fname sname (int idx) col kind v c)"
    by (auto split: option.splits prod.splits if_splits)
  from Cons.IH[OF r] obtain new where
    n: "change_logs self' = change_logs self1 @ new"
      "\<forall>r \<in> set new. \<exists>j < length rest. row_index r = int (Suc idx + j) \<and>
        convert (rest ! j) = Some (new_value r) \<and>
        py_str (rest ! j) \<noteq> py_str (new_value r)"
    by blast
  have shift: "\<forall>r \<in> set new. \<exists>j < length (v # rest). row_index r = int (idx + j) \<and>
        convert ((v # rest) ! j) = Some (new_value r) \<and>
        py_str ((v # rest) ! j) \<noteq> py_str (new_value r)"
  proof
    fix r
    assume "r \<in> set new"
    with n(2) obtain j where j: "j < length rest" "row_index r = int (Suc idx + j)"
      "convert (rest ! j) = Some (new_value r)" "py_str (rest ! j) \<noteq> py_str (new_value r)"
      by blast
    show "\<exists>j < length (v # rest). row_index r = int (idx + j) \<and>
        convert ((v # rest) ! j) = Some (new_value r) \<and>
        py_str ((v # rest) ! j) \<noteq> py_str (new_value r)"
      using j by (intro exI[of _ "Suc j"]) simp
  qed
  from s show ?case
  proof
    assume "self1 = self"
    with n(1) shift show ?thesis by blast
  next
    assume "\<exists>c. convert v = Some c \<and> py_str v \<noteq> py_str c \<and>
             self1 = log_change_dict self fname sname (int idx) col kind v c"
    then obtain c where c: "convert v = Some c" "py_str v \<noteq> py_str c"
      "self1 = log_change_dict self fname sname (int idx) col kind v c"
      by blast
    let ?rec = "\<lparr>file_name = fname, sheet_name = sname, row_index = int idx, column_name = col,
      change_type = kind, original_value = v, new_value = c\<rparr>"
    have l: "change_logs self' = change_logs self @ (?rec # new)"
      using n(1) c(3) by (simp add: log_change_dict_def)
    have "\<exists>j < length (v # rest). row_index ?rec = int (idx + j) \<and>
        convert ((v # rest) ! j) = Some (new_value ?rec) \<and>
        py_str ((v # rest) ! j) \<noteq> py_str (new_value ?rec)"
      using c(1,2) by (intro exI[of _ 0]) simp
    with shift have "\<forall>r \<in> set (?rec # new). \<exists>j < length (v # rest).
        row_index r = int (idx + j) \<and> convert ((v # rest) ! j) = Some (new_value r) \<and>
        py_str ((v # rest) ! j) \<noteq> py_str (new_value r)"
      by simp
    with l show ?thesis by blast
  qed
qed

lemma series_loop_cell_unchanged:
  assumes "i < length series" "convert (series ! i) = Some (series ! i)"
  shows "fst (series_loop convert kind col fname sname 0 series self) ! i = series ! i \<and>
    (\<exists>new. change_logs (snd (series_loop convert kind col fname sname 0 series self)) =
        change_logs self @ new \<and>
      (\<forall>r \<in> set new. row_index r \<noteq> int i))"
proof -
  obtain out self' where
    e: "series_loop convert kind col fname sname 0 series self = (out, self')"
    by (cases "series_loop convert kind col fname sname 0 series self")
  have 1: "out ! i = series ! i"
  proof (cases "isna (series ! i)")
    case True
    have "\<And>idx self out self'.
        series_loop convert kind col fname sname idx series self = (out, self') \<Longrightarrow>
        i < length series \<Longrightarrow> isna (series ! i) \<Longrightarrow> out ! i = series ! i"
    proof (induction series arbitrary: i)
      case Nil
      then show ?case by simp
    next
      case (Cons v rest)
      show ?case
      proof (cases i)
        case 0
        then show ?thesis using Cons.prems by (auto split: option.splits prod.splits if_splits)
      next
        case (Suc j)
        from Cons.prems(1) obtain idx' self1 out' where
          r: "series_loop convert kind col fname sname idx' rest self1 = (out', self')"
          and o: "\<exists>w. out = w # out'"
          by (auto split: option.splits prod.splits if_splits)
        have "out' ! j = rest ! j"
          using Cons.IH[OF r] Cons.prems(2,3) Suc by simp
        with o Suc show ?thesis by auto
      qed
    qed
    from this[OF e assms(1) True] show ?thesis .
  next
    case False
    from series_loop_result_nth[OF e assms(1) False assms(2)] show ?thesis .
  qed
  from series_loop_records[OF e] obtain new where
    n: "change_logs self' = change_logs self @ new"
      "\<forall>r \<in> set new. \<exists>j < length series. row_index r = int (0 + j) \<and>
        convert (series ! j) = Some (new_value r) \<and>
        py_str (series ! j) \<noteq> py_str (new_value r)"
    by blast
  have "\<forall>r \<in> set new. row_index r \<noteq> int i"
  proof
    fix r
    assume "r \<in> set new"
    with n(2) obtain j where j: "row_index r = int (0 + j)"
      "convert (series ! j) = Some (new_value r)" "py_str (series ! j) \<noteq> py_str (new_value r)"
      by blast
    show "row_index r \<noteq> int i"
    proof
      assume "row_index r = int i"
      with j(1) have "j = i" by simp
      with j(2,3) assms(2) show False by simp
    qed
  qed
  with 1 n(1) e show ?thesis by auto
qed

section \<open>Serial dates\<close>

lemma round_half_even_add_even:
  assumes "even k"
  shows "round_half_even (x + of_int k) = round_half_even x + k"
proof -
  have f: "floor (x + of_int k) = floor x + k" by simp
  have e: "even (floor x + k) = even (floor x)" using assms by simp
  show ?thesis
    unfolding round_half_even_def Let_def f e by simp
qed

lemma micros_1900: "micros_of_datetime datetime_1900_1_1 = 693596 * 86400000000"
  by (simp add: micros_of_datetime_def datetime_1900_1_1_def ymd2ord_def days_before_year_def
      days_before_month_def DAYS_BEFORE_MONTH_def is_leap_def)

lemma micros_1899: "micros_of_datetime datetime_1899_12_30 = 693594 * 86400000000"
  by (simp add: micros_of_datetime_def datetime_1899_12_30_def ymd2ord_def days_before_year_def
      days_before_month_def DAYS_BEFORE_MONTH_def is_leap_def)

lemma add_days_epoch:
  "datetime_add_days datetime_1900_1_1 (x - 2) = datetime_add_days datetime_1899_12_30 x"
proof -
  have "(x - 2) * 86400000000 = x * 86400000000 + of_int (- 172800000000)"
    by (simp add: algebra_simps)
  then have "round_half_even ((x - 2) * 86400000000) = round_half_even (x * 86400000000) + (- 172800000000)"
    using round_half_even_add_even[of "- 172800000000" "x * 86400000000"] by simp
  then have "micros_of_datetime datetime_1900_1_1 + round_half_even ((x - 2) * 86400000000)
      = micros_of_datetime datetime_1899_12_30 + round_half_even (x * 86400000000)"
    unfolding micros_1900 micros_1899 by linarith
  then show ?thesis unfolding datetime_add_days_def by (rule arg_cong)
qed

lemma round_half_even_mono_int:
  "of_int a \<le> x \<Longrightarrow> a \<le> round_half_even x" "x \<le> of_int b \<Longrightarrow> round_half_even x \<le> b"
proof -
  assume "of_int a \<le> x"
  then have "a \<le> floor x" by (simp add: le_floor_iff)
  then show "a \<le> round_half_even x" unfolding round_half_even_def Let_def by auto
next
  assume h: "x \<le> of_int b"
  have fl: "floor x \<le> b" using h by (simp add: floor_le_iff; linarith)
  show "round_half_even x \<le> b"
  proof (cases "floor x = b")
    case True
    then have "x = of_int b" using h by (metis floor_le_iff le_less_linear less_irrefl of_int_floor_le order_antisym)
    then show ?thesis unfolding round_half_even_def Let_def by simp
  next
    case False
    then have "floor x + 1 \<le> b" using fl by linarith
    then show ?thesis unfolding round_half_even_def Let_def by auto
  qed
qed


lemma round_half_even_of_int: "round_half_even (of_int k) = k"
  unfolding round_half_even_def Let_def by simp

lemma add_days_in_range:
  assumes "1 \<le> x" "x \<le> 2958465"
  shows "datetime_add_days datetime_1899_12_30 x \<noteq> None"
proof -
  define r where "r = round_half_even (x * 86400000000)"
  have "of_int 86400000000 \<le> x * 86400000000" using assms(1) by simp
  then have lo: "86400000000 \<le> r" unfolding r_def by (rule round_half_even_mono_int(1))
  have "x * 86400000000 \<le> of_int (2958465 * 86400000000)" using assms(2) by simp
  then have hi: "r \<le> 2958465 * 86400000000" unfolding r_def by (rule round_half_even_mono_int(2))
  define t where "t = 693594 * 86400000000 + r"
  have "693595 * 86400000000 \<le> t" using lo unfolding t_def by simp
  then have "(693595 * 86400000000) div 86400000000 \<le> t div 86400000000"
    by (rule zdiv_mono1) simp
  then have d1: "0 < t div 86400000000" by simp
  have "t \<le> 3652059 * 86400000000" using hi unfolding t_def by simp
  then have "t div 86400000000 \<le> (3652059 * 86400000000) div 86400000000"
    by (rule zdiv_mono1) simp
  then have d2: "t div 86400000000 \<le> MAXORDINAL" by (simp add: MAXORDINAL_def)
  have "datetime_add_days datetime_1899_12_30 x = datetime_of_micros t"
    unfolding datetime_add_days_def micros_1899 t_def r_def by simp
  moreover have "datetime_of_micros t \<noteq> None"
    unfolding datetime_of_micros_def Let_def using d1 d2 by (simp split: prod.splits)
  ultimately show ?thesis by simp
qed

lemma add_days_int:
  assumes "1 \<le> n" "n \<le> 2958465"
  shows "datetime_add_days datetime_1899_12_30 (of_int n) =
     (case ord2ymd (ymd2ord 1899 12 30 + n) of
        (y, m, d) \<Rightarrow> Some \<lparr>year = y, month = m, day = d, hour = 0, minute = 0, second = 0,
                           microsecond = 0\<rparr>)"
proof -
  have o: "ymd2ord 1899 12 30 = 693594"
    by (simp add: ymd2ord_def days_before_year_def days_before_month_def DAYS_BEFORE_MONTH_def is_leap_def)
  have "of_int n * (86400000000::rat) = of_int (n * 86400000000)" by simp
  then have r: "round_half_even (of_int n * 86400000000) = n * 86400000000"
    using round_half_even_of_int[of "n * 86400000000"] by simp
  have t: "693594 * 86400000000 + n * 86400000000 = (693594 + n) * (86400000000::int)"
    by (simp add: algebra_simps)
  have dv: "((693594 + n) * 86400000000) div (86400000000::int) = 693594 + n" by simp
  have md: "((693594 + n) * 86400000000) mod (86400000000::int) = 0" by simp
  have rng: "0 < 693594 + n \<and> 693594 + n \<le> MAXORDINAL" using assms by (simp add: MAXORDINAL_def)
  show ?thesis
    unfolding datetime_add_days_def micros_1899 r t datetime_of_micros_def Let_def dv md o
    using rng by simp
qed

lemma convert_date_numeric:
  assumes "numeric_value v = Some x" "1 \<le> x" "x \<le> 2958465"
  shows "\<exists>d. datetime_add_days datetime_1899_12_30 x = Some d \<and>
     convert_date target_format v = Some (CStr (strftime d target_format))"
proof -
  obtain d where d: "datetime_add_days datetime_1899_12_30 x = Some d"
    using add_days_in_range[OF assms(2,3)] by auto
  then have d': "datetime_add_days datetime_1900_1_1 (x - 2) = Some d"
    by (simp add: add_days_epoch)
  have "convert_date target_format v = Some (CStr (strftime d target_format))"
    using assms d' by (cases v rule: numeric_value.cases) (simp_all add: convert_date_def)
  with d show ?thesis by blast
qed

lemma isna_numeric: "numeric_value v = Some x \<Longrightarrow> \<not> isna v"
  by (cases v rule: numeric_value.cases) simp_all

lemma normalize_dates_numeric:
  assumes "i < length series" "numeric_value (series ! i) = Some x" "1 \<le> x" "x \<le> 2958465"
  shows "\<exists>d. datetime_add_days datetime_1899_12_30 x = Some d \<and>
     length (fst (normalize_dates self series std col fname sname)) = length series \<and>
     fst (normalize_dates self series std col fname sname) ! i =
       CStr (strftime d (case format std of None \<Rightarrow> ascii ''%Y-%m-%d'' | Some f \<Rightarrow> f))"
proof -
  let ?fmt = "case format std of None \<Rightarrow> ascii ''%Y-%m-%d'' | Some f \<Rightarrow> f"
  from convert_date_numeric[OF assms(2,3,4), of ?fmt]
  obtain d where d: "datetime_add_days datetime_1899_12_30 x = Some d"
    and c: "convert_date ?fmt (series ! i) = Some (CStr (strftime d ?fmt))"
    by blast
  have n: "\<not> isna (series ! i)" using assms(2) by (rule isna_numeric)
  have "fst (normalize_dates self series std col fname sname) ! i = CStr (strftime d ?fmt)"
    unfolding normalize_dates_def Let_def by (rule series_loop_nth) (rule assms(1) n c)+
  moreover have "length (fst (normalize_dates self series std col fname sname)) = length series"
    unfolding normalize_dates_def Let_def by (rule series_loop_length)
  ultimately show ?thesis using d by blast
qed

lemma add_days_1: "datetime_add_days datetime_1900_1_1 (1 - 2) =
     Some \<lparr>year = 1899, month = 12, day = 31, hour = 0, minute = 0, second = 0, microsecond = 0\<rparr>"
proof -
  have "datetime_add_days datetime_1899_12_30 (of_int 1) =
     Some \<lparr>year = 1899, month = 12, day = 31, hour = 0, minute = 0, second = 0, microsecond = 0\<rparr>"
    by (subst add_days_int)
       (simp_all add: ord2ymd_def Let_def ymd2ord_def days_before_year_def days_before_month_def
         DAYS_BEFORE_MONTH_def DAYS_IN_MONTH_def is_leap_def)
  then show ?thesis using add_days_epoch[of 1] by simp
qed

lemma normalize_dates_of_serial_1:
  "normalize_dates self [CInt 1] (empty_standard\<lparr>format := Some (ascii ''%Y-%m-%d'')\<rparr>)
     col fname sname =
   ([CStr (ascii ''1899-12-31'')],
    self\<lparr>change_logs := change_logs self @
      [\<lparr>file_name = fname, sheet_name = sname, row_index = 0, column_name = col,
        change_type = date_format, original_value = CInt 1,
        new_value = CStr (ascii ''1899-12-31'')\<rparr>]\<rparr>)"
proof -
  have c: "convert_date (ascii ''%Y-%m-%d'') (CInt 1) = Some (CStr (ascii ''1899-12-31''))"
    using add_days_1 by (simp add: convert_date_def char_defs fmt_defs)
  have ne: "str_int 1 \<noteq> ascii ''1899-12-31''"
    by (simp add: str_int_def str_nat.simps ascii_def)
  show ?thesis
    using c ne by (simp add: normalize_dates_def log_change_dict_def)
qed

text \<open>
  C3. For every numeric cell value \<open>x\<close> (an int, a bool or a finite float) with
  \<open>1 \<le> x \<le> 2958465\<close>, at any position of a column, date normalisation replaces the
  cell by the date-time 1899-12-30 plus \<open>x\<close> days, which always exists, rendered in the
  target pattern of the column (\<open>%Y-%m-%d\<close> when the standard names none), and keeps the
  length of the column.  For an integer serial \<open>n\<close> the date-time is the calendar date
  \<open>n\<close> days after 1899-12-30, at midnight.  A column that holds the serial 1 becomes
  \<open>1899-12-31\<close>, and the change is logged.
\<close>

theorem normalize_dates_serial:
  "(i < length series \<and> numeric_value (series ! i) = Some x \<and> 1 \<le> x \<and> x \<le> 2958465 \<longrightarrow>
      (\<exists>d. datetime_add_days datetime_1899_12_30 x = Some d \<and>
           length (fst (normalize_dates self series std col fname sname)) = length series \<and>
           fst (normalize_dates self series std col fname sname) ! i =
             CStr (strftime d
               (case format std of None \<Rightarrow> ascii ''%Y-%m-%d'' | Some f \<Rightarrow> f)))) \<and>
   (1 \<le> n \<and> n \<le> 2958465 \<longrightarrow>
      datetime_add_days datetime_1899_12_30 (of_int n) =
        (case ord2ymd (ymd2ord 1899 12 30 + n) of
           (y, m, d) \<Rightarrow> Some \<lparr>year = y, month = m, day = d, hour = 0, minute = 0, second = 0,
                              microsecond = 0\<rparr>)) \<and>
   normalize_dates self [CInt 1] (empty_standard\<lparr>format := Some (ascii ''%Y-%m-%d'')\<rparr>)
     col fname sname =
   ([CStr (ascii ''1899-12-31'')],
    self\<lparr>change_logs := change_logs self @
      [\<lparr>file_name = fname, sheet_name = sname, row_index = 0, column_name = col,
        change_type = date_format, original_value = CInt 1,
        new_value = CStr (ascii ''1899-12-31'')\<rparr>]\<rparr>)"
proof (intro conjI impI)
  assume "i < length series \<and> numeric_value (series ! i) = Some x \<and> 1 \<le> x \<and> x \<le> 2958465"
  then show "\<exists>d. datetime_add_days datetime_1899_12_30 x = Some d \<and>
           length (fst (normalize_dates self series std col fname sname)) = length series \<and>
           fst (normalize_dates self series std col fname sname) ! i =
             CStr (strftime d
               (case format std of None \<Rightarrow> ascii ''%Y-%m-%d'' | Some f \<Rightarrow> f))"
    using normalize_dates_numeric by blast
next
  assume "1 \<le> n \<and> n \<le> 2958465"
  then show "datetime_add_days datetime_1899_12_30 (of_int n) =
        (case ord2ymd (ymd2ord 1899 12 30 + n) of
           (y, m, d) \<Rightarrow> Some \<lparr>year = y, month = m, day = d, hour = 0, minute = 0, second = 0,
                              microsecond = 0\<rparr>)"
    using add_days_int by blast
next
  show "normalize_dates self [CInt 1] (empty_standard\<lparr>format := Some (ascii ''%Y-%m-%d'')\<rparr>)
     col fname sname =
   ([CStr (ascii ''1899-12-31'')],
    self\<lparr>change_logs := change_logs self @
      [\<lparr>file_name = fname, sheet_name = sname, row_index = 0, column_name = col,
        change_type = date_format, original_value = CInt 1,
        new_value = CStr (ascii ''1899-12-31'')\<rparr>]\<rparr>)"
    by (rule normalize_dates_of_serial_1)
qed

text \<open>
  The column \<open>[None, 45000]\<close> under the pattern \<open>%Y/%m/%d\<close>: the second cell becomes
  \<open>2023/03/15\<close>.
\<close>

theorem normalize_dates_serial_witness:
  "(1::nat) < length [CNone, CInt 45000] \<and>
   numeric_value ([CNone, CInt 45000] ! 1) = Some 45000 \<and>
   (1::rat) \<le> 45000 \<and> (45000::rat) \<le> 2958465 \<and>
   (1::int) \<le> 45000 \<and> (45000::int) \<le> 2958465 \<and>
   length (fst (normalize_dates \<lparr>change_logs = []\<rparr> [CNone, CInt 45000]
     (empty_standard\<lparr>format := Some (ascii ''%Y/%m/%d'')\<rparr>)
     (ascii ''date'') (ascii ''b.xlsx'') (ascii ''Sheet1''))) = 2 \<and>
   fst (normalize_dates \<lparr>change_logs = []\<rparr> [CNone, CInt 45000]
     (empty_standard\<lparr>format := Some (ascii ''%Y/%m/%d'')\<rparr>)
     (ascii ''date'') (ascii ''b.xlsx'') (ascii ''Sheet1'')) ! 1 = CStr (ascii ''2023/03/15'')"
proof -
  note inst = normalize_dates_serial
    [of 1 "[CNone, CInt 45000]" 45000 "\<lparr>change_logs = []\<rparr>"
        "empty_standard\<lparr>format := Some (ascii ''%Y/%m/%d'')\<rparr>"
        "ascii ''date''" "ascii ''b.xlsx''" "ascii ''Sheet1''" 45000]
  have pre1: "(1::nat) < length [CNone, CInt 45000] \<and>
      numeric_value ([CNone, CInt 45000] ! 1) = Some 45000 \<and> (1::rat) \<le> 45000 \<and>
      (45000::rat) \<le> 2958465"
    by simp
  have pre2: "(1::int) \<le> 45000 \<and> (45000::int) \<le> 2958465"
    by simp
  have "\<exists>d. datetime_add_days datetime_1899_12_30 45000 = Some d \<and>
      length (fst (normalize_dates \<lparr>change_logs = []\<rparr> [CNone, CInt 45000]
        (empty_standard\<lparr>format := Some (ascii ''%Y/%m/%d'')\<rparr>)
        (ascii ''date'') (ascii ''b.xlsx'') (ascii ''Sheet1''))) = length [CNone, CInt 45000] \<and>
      fst (normalize_dates \<lparr>change_logs = []\<rparr> [CNone, CInt 45000]
        (empty_standard\<lparr>format := Some (ascii ''%Y/%m/%d'')\<rparr>)
        (ascii ''date'') (ascii ''b.xlsx'') (ascii ''Sheet1'')) ! 1 =
        CStr (strftime d
          (case format (empty_standard\<lparr>format := Some (ascii ''%Y/%m/%d'')\<rparr>) of
             None \<Rightarrow> ascii ''%Y-%m-%d'' | Some f \<Rightarrow> f))"
    using inst[THEN conjunct1] pre1 by (rule mp)
  then obtain d where
    d: "datetime_add_days datetime_1899_12_30 45000 = Some d" and
    l: "length (fst (normalize_dates \<lparr>change_logs = []\<rparr> [CNone, CInt 45000]
        (empty_standard\<lparr>format := Some (ascii ''%Y/%m/%d'')\<rparr>)
        (ascii ''date'') (ascii ''b.xlsx'') (ascii ''Sheet1''))) = length [CNone, CInt 45000]" and
    c: "fst (normalize_dates \<lparr>change_logs = []\<rparr> [CNone, CInt 45000]
        (empty_standard\<lparr>format := Some (ascii ''%Y/%m/%d'')\<rparr>)
        (ascii ''date'') (ascii ''b.xlsx'') (ascii ''Sheet1'')) ! 1 =
        CStr (strftime d
          (case format (empty_standard\<lparr>format := Some (ascii ''%Y/%m/%d'')\<rparr>) of
             None \<Rightarrow> ascii ''%Y-%m-%d'' | Some f \<Rightarrow> f))"
    by (elim exE conjE)
  have "datetime_add_days datetime_1899_12_30 (of_int 45000) =
        (case ord2ymd (ymd2ord 1899 12 30 + 45000) of
           (y, m, d) \<Rightarrow> Some \<lparr>year = y, month = m, day = d, hour = 0, minute = 0, second = 0,
                              microsecond = 0\<rparr>)"
    using inst[THEN conjunct2, THEN conjunct1] pre2 by (rule mp)
  then have "datetime_add_days datetime_1899_12_30 45000 =
     Some \<lparr>year = 2023, month = 3, day = 15, hour = 0, minute = 0, second = 0, microsecond = 0\<rparr>"
    by (simp add: ord2ymd_def Let_def ymd2ord_def days_before_year_def days_before_month_def
         DAYS_BEFORE_MONTH_def DAYS_IN_MONTH_def is_leap_def)
  with d have dd: "d = \<lparr>year = 2023, month = 3, day = 15, hour = 0, minute = 0, second = 0,
      microsecond = 0\<rparr>" by simp
  have f: "strftime \<lparr>year = 2023, month = 3, day = 15, hour = 0, minute = 0, second = 0,
      microsecond = 0\<rparr> (ascii ''%Y/%m/%d'') = ascii ''2023/03/15''"
    by (simp add: char_defs fmt_defs)
  have c': "fst (normalize_dates \<lparr>change_logs = []\<rparr> [CNone, CInt 45000]
        (empty_standard\<lparr>format := Some (ascii ''%Y/%m/%d'')\<rparr>)
        (ascii ''date'') (ascii ''b.xlsx'') (ascii ''Sheet1'')) ! 1 = CStr (ascii ''2023/03/15'')"
    using c dd f by simp
  from pre1 pre2 l c' show ?thesis by simp
qed

section \<open>Dates that are already in the target pattern\<close>

lemma str_nat_digits: "str_nat n \<noteq> [] \<and> (\<forall>c \<in> set (str_nat n). 48 \<le> c \<and> c \<le> 57)"
proof (induction n rule: str_nat.induct)
  case (1 n)
  show ?case
  proof (cases "n < 10")
    case True
    then show ?thesis by (subst str_nat.simps, subst (2) str_nat.simps) simp
  next
    case False
    have m: "n mod 10 < 10" by simp
    from False 1 m show ?thesis
      by (subst str_nat.simps, subst (2) str_nat.simps) (auto simp del: mod_less_divisor)
  qed
qed

lemma digit_not_space: "48 \<le> c \<and> c \<le> 57 \<Longrightarrow> \<not> py_isspace c"
  by (simp add: py_isspace_def)

lemma zero_pad_solid:
  "zero_pad w i \<noteq> [] \<and> (\<forall>c \<in> set (zero_pad w i). \<not> py_isspace c)"
proof -
  have s: "str_nat (nat \<bar>i\<bar>) \<noteq> []" "\<forall>c \<in> set (str_nat (nat \<bar>i\<bar>)). \<not> py_isspace c"
    using str_nat_digits[of "nat \<bar>i\<bar>"] digit_not_space by blast+
  have c: "\<not> py_isspace 45" "\<not> py_isspace 48" by (simp_all add: py_isspace_def)
  show ?thesis
    unfolding zero_pad_def Let_def using s c by auto
qed

lemma str_int_solid:
  "str_int i \<noteq> [] \<and> (\<forall>c \<in> set (str_int i). \<not> py_isspace c)"
proof -
  have s: "\<And>n. str_nat n \<noteq> []" "\<And>n. \<forall>c \<in> set (str_nat n). \<not> py_isspace c"
    using str_nat_digits digit_not_space by blast+
  have c: "\<not> py_isspace 45" by (simp add: py_isspace_def)
  show ?thesis
    unfolding str_int_def using s c by auto
qed

lemma dropWhile_none: "\<forall>c \<in> set xs. \<not> P c \<Longrightarrow> dropWhile P xs = xs"
  by (cases xs) simp_all

lemma py_strip_solid:
  assumes "\<forall>c \<in> set s. \<not> py_isspace c"
  shows "py_strip s = s"
proof -
  have a: "dropWhile py_isspace s = s"
    using assms by (rule dropWhile_none)
  have "\<forall>c \<in> set (rev s). \<not> py_isspace c" using assms by simp
  then have b: "dropWhile py_isspace (rev s) = rev s"
    by (rule dropWhile_none)
  show ?thesis by (simp add: py_strip_def a b)
qed

lemma strftime_common_solid:
  assumes "fmt \<in> set common_formats"
  shows "strftime d fmt \<noteq> [] \<and> (\<forall>c \<in> set (strftime d fmt). \<not> py_isspace c)"
proof -
  have sep: "\<not> py_isspace 45" "\<not> py_isspace 46" "\<not> py_isspace 47"
    by (simp_all add: py_isspace_def)
  from assms consider "fmt = ascii ''%Y-%m-%d''" | "fmt = ascii ''%Y/%m/%d''"
    | "fmt = ascii ''%m/%d/%Y''" | "fmt = ascii ''%d/%m/%Y''" | "fmt = ascii ''%Y.%m.%d''"
    by (auto simp: common_formats_def)
  then show ?thesis
    using str_int_solid[of "year d"] zero_pad_solid[of 2 "month d"] zero_pad_solid[of 2 "day d"] sep
    by cases (auto simp: ascii_def strftime_directive_def)
qed

lemma convert_date_target_format:
  assumes "fmt \<in> set common_formats" "is_target_format v fmt"
  shows "convert_date fmt (CStr v) = Some (CStr v)"
proof -
  from assms(2) obtain d where "strftime d fmt = v"
    by (auto simp: is_target_format_def split: option.splits)
  with strftime_common_solid[OF assms(1), of d]
  have ne: "v \<noteq> []" and solid: "\<forall>c \<in> set v. \<not> py_isspace c" by auto
  have "py_strip v = v" using solid by (rule py_strip_solid)
  with ne assms(2) show ?thesis by (simp add: convert_date_def)
qed

text \<open>The digits of a year of four digits, and of a month or a day.\<close>

lemma str_nat_4:
  assumes "1000 \<le> n" "n < 10000"
  shows "str_nat n = [48 + n div 1000, 48 + n div 100 mod 10, 48 + n div 10 mod 10, 48 + n mod 10]"
proof -
  have s1: "str_nat n = str_nat (n div 10) @ [48 + n mod 10]"
    by (subst str_nat.simps) (use assms in simp)
  have e: "n div 10 div 10 = n div 100" "n div 100 div 10 = n div 1000"
    by (simp_all add: div_mult2_eq)
  have b: "\<not> n div 10 < 10" "\<not> n div 100 < 10" "n div 1000 < 10"
    using assms by simp_all
  have s2: "str_nat (n div 10) = str_nat (n div 100) @ [48 + n div 10 mod 10]"
    by (subst str_nat.simps) (simp add: e b)
  have s3: "str_nat (n div 100) = str_nat (n div 1000) @ [48 + n div 100 mod 10]"
    by (subst str_nat.simps) (simp add: e b)
  have s4: "str_nat (n div 1000) = [48 + n div 1000]"
    by (subst str_nat.simps) (simp add: b)
  show ?thesis by (simp add: s1 s2 s3 s4)
qed

lemma digits_4:
  fixes n :: nat
  shows "((int (n div 1000) * 10 + int (n div 100 mod 10)) * 10 + int (n div 10 mod 10)) * 10
           + int (n mod 10) = int n"
proof -
  have 1: "n div 10 * 10 + n mod 10 = n" by (rule div_mult_mod_eq)
  have e: "n div 10 div 10 = n div 100" "n div 100 div 10 = n div 1000"
    by (simp_all add: div_mult2_eq)
  have 2: "n div 100 * 10 + n div 10 mod 10 = n div 10"
    using div_mult_mod_eq[of "n div 10" 10] by (simp only: e)
  have 3: "n div 1000 * 10 + n div 100 mod 10 = n div 100"
    using div_mult_mod_eq[of "n div 100" 10] by (simp only: e)
  have "((n div 1000 * 10 + n div 100 mod 10) * 10 + n div 10 mod 10) * 10 + n mod 10 = n"
    by (simp only: 3 2 1)
  then have "int (((n div 1000 * 10 + n div 100 mod 10) * 10 + n div 10 mod 10) * 10 + n mod 10)
      = int n" by (rule arg_cong)
  then show ?thesis by (simp only: of_nat_add of_nat_mult of_nat_numeral)
qed

lemma year_text:
  assumes "1000 \<le> y" "y \<le> 9999"
  shows "zero_pad 4 y = str_nat (nat y)" "str_int y = str_nat (nat y)"
    "length (str_nat (nat y)) = 4"
proof -
  have n: "1000 \<le> nat y" "nat y < 10000" using assms by simp_all
  show l: "length (str_nat (nat y)) = 4" by (simp add: str_nat_4[OF n])
  have a: "\<bar>y\<bar> = y" "\<not> y < 0" using assms by simp_all
  show "zero_pad 4 y = str_nat (nat y)" by (simp add: zero_pad_def Let_def a l)
  show "str_int y = str_nat (nat y)" by (simp add: str_int_def a)
qed

lemma dir_candidates_Y:
  assumes "1000 \<le> y" "y \<le> 9999"
  shows "dir_candidates 89 (zero_pad 4 y @ rest) = [(y, rest)]"
proof -
  define n where "n = nat y"
  have n: "1000 \<le> n" "n < 10000" "int n = y" using assms by (simp_all add: n_def)
  have d: "n div 1000 < 10" "n div 100 mod 10 < 10" "n div 10 mod 10 < 10" "n mod 10 < 10"
    using n by simp_all
  have z: "zero_pad 4 y =
      [48 + n div 1000, 48 + n div 100 mod 10, 48 + n div 10 mod 10, 48 + n mod 10]"
    using year_text(1)[OF assms] str_nat_4[OF n(1,2)] by (simp add: n_def)
  have v: "((int (n div 1000) * 10 + int (n div 100 mod 10)) * 10 + int (n div 10 mod 10)) * 10
           + int (n mod 10) = y"
    using digits_4[of n] n(3) by simp
  show ?thesis
    unfolding z using d v
    by (simp add: dir_candidates_def py_isdigit_def digit_val_def del: mod_less_divisor)
qed

lemma month_cases:
  fixes m :: int
  assumes "1 \<le> m" "m \<le> 12"
  shows "m = 1 \<or> m = 2 \<or> m = 3 \<or> m = 4 \<or> m = 5 \<or> m = 6 \<or> m = 7 \<or> m = 8 \<or> m = 9 \<or>
    m = 10 \<or> m = 11 \<or> m = 12"
  using assms by arith

lemma day_cases:
  fixes d :: int
  assumes "1 \<le> d" "d \<le> 31"
  shows "d = 1 \<or> d = 2 \<or> d = 3 \<or> d = 4 \<or> d = 5 \<or> d = 6 \<or> d = 7 \<or> d = 8 \<or> d = 9 \<or>
    d = 10 \<or> d = 11 \<or> d = 12 \<or> d = 13 \<or> d = 14 \<or> d = 15 \<or> d = 16 \<or> d = 17 \<or> d = 18 \<or>
    d = 19 \<or> d = 20 \<or> d = 21 \<or> d = 22 \<or> d = 23 \<or> d = 24 \<or> d = 25 \<or> d = 26 \<or> d = 27 \<or>
    d = 28 \<or> d = 29 \<or> d = 30 \<or> d = 31"
  using assms by arith

lemma dir_candidates_m:
  assumes "1 \<le> m" "m \<le> 12"
  shows "\<exists>more. dir_candidates 109 (zero_pad 2 m @ rest) = (m, rest) # more"
  using month_cases[OF assms]
  by (elim disjE) (simp_all add: dir_candidates_def alt1_def alt2_def char_defs fmt_defs)

lemma dir_candidates_d:
  assumes "1 \<le> d" "d \<le> 31"
  shows "\<exists>more. dir_candidates 100 (zero_pad 2 d @ rest) = (d, rest) # more"
  using day_cases[OF assms]
  by (elim disjE) (simp_all add: dir_candidates_def alt1_def alt2_def char_defs fmt_defs)

lemma days_in_month_le_31: "1 \<le> m \<Longrightarrow> m \<le> 12 \<Longrightarrow> days_in_month y m \<le> 31"
  using month_cases[of m]
  by (auto simp: days_in_month_def DAYS_IN_MONTH_def)

lemma match_items_FDir:
  assumes "\<exists>more. dir_candidates k s = (v, rest) # more"
    and "match_items its rest (found @ [(k, v)]) = Some r"
  shows "match_items (FDir k # its) s found = Some r"
  using assms by auto

lemma match_items_FLit: "match_items (FLit c # its) (c # s) found = match_items its s found"
  by simp


lemma valid_date_bounds:
  assumes "valid_date y m d"
  shows "1 \<le> y" "y \<le> 9999" "1 \<le> m" "m \<le> 12" "1 \<le> d" "d \<le> 31"
    "mk_datetime y m d 0 0 0 0 =
       Some \<lparr>year = y, month = m, day = d, hour = 0, minute = 0, second = 0, microsecond = 0\<rparr>"
proof -
  show b: "1 \<le> y" "y \<le> 9999" "1 \<le> m" "m \<le> 12" "1 \<le> d"
    using assms by (simp_all add: valid_date_def)
  have "d \<le> days_in_month y m" using assms by (simp add: valid_date_def)
  then show "d \<le> 31" using days_in_month_le_31[OF b(3,4), of y] by simp
  show "mk_datetime y m d 0 0 0 0 =
       Some \<lparr>year = y, month = m, day = d, hour = 0, minute = 0, second = 0, microsecond = 0\<rparr>"
    using assms by (simp add: valid_date_def mk_datetime_def)
qed

text \<open>
  The three shapes of the patterns that format extraction can choose: year, month, day
  with a separator \<open>c\<close>; month, day, year; day, month, year.  A date with a year of four
  digits, written out in the pattern, parses to itself and is printed as it was written.
\<close>

lemma is_target_format_Ymd:
  assumes v: "valid_date y m d" and y: "1000 \<le> y" and c: "\<not> py_isspace c" "c \<noteq> 37"
  shows "is_target_format (canonical_date_text y m d [37, 89, c, 37, 109, c, 37, 100])
           [37, 89, c, 37, 109, c, 37, 100]"
proof -
  note b = valid_date_bounds[OF v]
  have t: "canonical_date_text y m d [37, 89, c, 37, 109, c, 37, 100] =
      zero_pad 4 y @ c # zero_pad 2 m @ c # zero_pad 2 d"
    using c by simp
  have fi: "fmt_items [37, 89, c, 37, 109, c, 37, 100] =
      Some [FDir 89, FLit c, FDir 109, FLit c, FDir 100]"
    using c by (simp add: known_directives_def ascii_def py_isspace_def)
  have cd: "\<exists>more. dir_candidates 100 (zero_pad 2 d) = (d, []) # more"
    using dir_candidates_d[OF b(5,6), of "[]"] by simp
  have m3: "match_items [FDir 100] (zero_pad 2 d) [(89, y), (109, m)] =
      Some ([(89, y), (109, m), (100, d)], [])"
    by (rule match_items_FDir[OF cd]) simp
  have m2: "match_items [FDir 109, FLit c, FDir 100] (zero_pad 2 m @ c # zero_pad 2 d) [(89, y)] =
      Some ([(89, y), (109, m), (100, d)], [])"
    by (rule match_items_FDir[OF dir_candidates_m[OF b(3,4)]])
       (simp add: match_items_FLit m3 del: match_items.simps)
  have cy: "\<exists>more. dir_candidates 89 (zero_pad 4 y @ c # zero_pad 2 m @ c # zero_pad 2 d) =
      (y, c # zero_pad 2 m @ c # zero_pad 2 d) # more"
    using dir_candidates_Y[OF y b(2)] by simp
  have m1: "match_items [FDir 89, FLit c, FDir 109, FLit c, FDir 100]
      (zero_pad 4 y @ c # zero_pad 2 m @ c # zero_pad 2 d) [] =
      Some ([(89, y), (109, m), (100, d)], [])"
    by (rule match_items_FDir[OF cy]) (simp add: match_items_FLit m2 del: match_items.simps)
  have p: "strptime (zero_pad 4 y @ c # zero_pad 2 m @ c # zero_pad 2 d)
      [37, 89, c, 37, 109, c, 37, 100] =
      Some \<lparr>year = y, month = m, day = d, hour = 0, minute = 0, second = 0, microsecond = 0\<rparr>"
    using b(7) by (simp add: strptime_def fi m1 del: match_items.simps fmt_items.simps)
  have f: "strftime \<lparr>year = y, month = m, day = d, hour = 0, minute = 0, second = 0,
      microsecond = 0\<rparr> [37, 89, c, 37, 109, c, 37, 100] =
      zero_pad 4 y @ c # zero_pad 2 m @ c # zero_pad 2 d"
    using c year_text(1,2)[OF y b(2)] by (simp add: strftime_directive_def)
  show ?thesis
    unfolding t is_target_format_def p using f by simp
qed

lemma is_target_format_mdY:
  assumes v: "valid_date y m d" and y: "1000 \<le> y" and c: "\<not> py_isspace c" "c \<noteq> 37"
  shows "is_target_format (canonical_date_text y m d [37, 109, c, 37, 100, c, 37, 89])
           [37, 109, c, 37, 100, c, 37, 89]"
proof -
  note b = valid_date_bounds[OF v]
  have t: "canonical_date_text y m d [37, 109, c, 37, 100, c, 37, 89] =
      zero_pad 2 m @ c # zero_pad 2 d @ c # zero_pad 4 y"
    using c by simp
  have fi: "fmt_items [37, 109, c, 37, 100, c, 37, 89] =
      Some [FDir 109, FLit c, FDir 100, FLit c, FDir 89]"
    using c by (simp add: known_directives_def ascii_def py_isspace_def)
  have cy: "\<exists>more. dir_candidates 89 (zero_pad 4 y) = (y, []) # more"
    using dir_candidates_Y[OF y b(2), of "[]"] by simp
  have m3: "match_items [FDir 89] (zero_pad 4 y) [(109, m), (100, d)] =
      Some ([(109, m), (100, d), (89, y)], [])"
    by (rule match_items_FDir[OF cy]) simp
  have m2: "match_items [FDir 100, FLit c, FDir 89] (zero_pad 2 d @ c # zero_pad 4 y) [(109, m)] =
      Some ([(109, m), (100, d), (89, y)], [])"
    by (rule match_items_FDir[OF dir_candidates_d[OF b(5,6)]])
       (simp add: match_items_FLit m3 del: match_items.simps)
  have m1: "match_items [FDir 109, FLit c, FDir 100, FLit c, FDir 89]
      (zero_pad 2 m @ c # zero_pad 2 d @ c # zero_pad 4 y) [] =
      Some ([(109, m), (100, d), (89, y)], [])"
    by (rule match_items_FDir[OF dir_candidates_m[OF b(3,4)]])
       (simp add: match_items_FLit m2 del: match_items.simps)
  have p: "strptime (zero_pad 2 m @ c # zero_pad 2 d @ c # zero_pad 4 y)
      [37, 109, c, 37, 100, c, 37, 89] =
      Some \<lparr>year = y, month = m, day = d, hour = 0, minute = 0, second = 0, microsecond = 0\<rparr>"
    using b(7) by (simp add: strptime_def fi m1 del: match_items.simps fmt_items.simps)
  have f: "strftime \<lparr>year = y, month = m, day = d, hour = 0, minute = 0, second = 0,
      microsecond = 0\<rparr> [37, 109, c, 37, 100, c, 37, 89] =
      zero_pad 2 m @ c # zero_pad 2 d @ c # zero_pad 4 y"
    using c year_text(1,2)[OF y b(2)] by (simp add: strftime_directive_def)
  show ?thesis
    unfolding t is_target_format_def p using f by simp
qed

lemma is_target_format_dmY:
  assumes v: "valid_date y m d" and y: "1000 \<le> y" and c: "\<not> py_isspace c" "c \<noteq> 37"
  shows "is_target_format (canonical_date_text y m d [37, 100, c, 37, 109, c, 37, 89])
           [37, 100, c, 37, 109, c, 37, 89]"
proof -
  note b = valid_date_bounds[OF v]
  have t: "canonical_date_text y m d [37, 100, c, 37, 109, c, 37, 89] =
      zero_pad 2 d @ c # zero_pad 2 m @ c # zero_pad 4 y"
    using c by simp
  have fi: "fmt_items [37, 100, c, 37, 109, c, 37, 89] =
      Some [FDir 100, FLit c, FDir 109, FLit c, FDir 89]"
    using c by (simp add: known_directives_def ascii_def py_isspace_def)
  have cy: "\<exists>more. dir_candidates 89 (zero_pad 4 y) = (y, []) # more"
    using dir_candidates_Y[OF y b(2), of "[]"] by simp
  have m3: "match_items [FDir 89] (zero_pad 4 y) [(100, d), (109, m)] =
      Some ([(100, d), (109, m), (89, y)], [])"
    by (rule match_items_FDir[OF cy]) simp
  have m2: "match_items [FDir 109, FLit c, FDir 89] (zero_pad 2 m @ c # zero_pad 4 y) [(100, d)] =
      Some ([(100, d), (109, m), (89, y)], [])"
    by (rule match_items_FDir[OF dir_candidates_m[OF b(3,4)]])
       (simp add: match_items_FLit m3 del: match_items.simps)
  have m1: "match_items [FDir 100, FLit c, FDir 109, FLit c, FDir 89]
      (zero_pad 2 d @ c # zero_pad 2 m @ c # zero_pad 4 y) [] =
      Some ([(100, d), (109, m), (89, y)], [])"
    by (rule match_items_FDir[OF dir_candidates_d[OF b(5,6)]])
       (simp add: match_items_FLit m2 del: match_items.simps)
  have p: "strptime (zero_pad 2 d @ c # zero_pad 2 m @ c # zero_pad 4 y)
      [37, 100, c, 37, 109, c, 37, 89] =
      Some \<lparr>year = y, month = m, day = d, hour = 0, minute = 0, second = 0, microsecond = 0\<rparr>"
    using b(7) by (simp add: strptime_def fi m1 del: match_items.simps fmt_items.simps)
  have f: "strftime \<lparr>year = y, month = m, day = d, hour = 0, minute = 0, second = 0,
      microsecond = 0\<rparr> [37, 100, c, 37, 109, c, 37, 89] =
      zero_pad 2 d @ c # zero_pad 2 m @ c # zero_pad 4 y"
    using c year_text(1,2)[OF y b(2)] by (simp add: strftime_directive_def)
  show ?thesis
    unfolding t is_target_format_def p using f by simp
qed

lemma is_target_format_canonical:
  assumes "fmt \<in> set common_formats" "valid_date y m d" "1000 \<le> y"
  shows "is_target_format (canonical_date_text y m d fmt) fmt"
proof -
  have sep: "\<not> py_isspace 45" "\<not> py_isspace 46" "\<not> py_isspace 47"
    by (simp_all add: py_isspace_def)
  have f: "ascii ''%Y-%m-%d'' = [37, 89, 45, 37, 109, 45, 37, 100]"
    "ascii ''%Y/%m/%d'' = [37, 89, 47, 37, 109, 47, 37, 100]"
    "ascii ''%m/%d/%Y'' = [37, 109, 47, 37, 100, 47, 37, 89]"
    "ascii ''%d/%m/%Y'' = [37, 100, 47, 37, 109, 47, 37, 89]"
    "ascii ''%Y.%m.%d'' = [37, 89, 46, 37, 109, 46, 37, 100]"
    by (simp_all add: ascii_def)
  from assms(1) consider "fmt = ascii ''%Y-%m-%d''" | "fmt = ascii ''%Y/%m/%d''"
    | "fmt = ascii ''%m/%d/%Y''" | "fmt = ascii ''%d/%m/%Y''" | "fmt = ascii ''%Y.%m.%d''"
    by (auto simp: common_formats_def)
  then show ?thesis
  proof cases
    case 1
    show ?thesis unfolding 1 f by (rule is_target_format_Ymd[OF assms(2,3) sep(1)]) simp
  next
    case 2
    show ?thesis unfolding 2 f by (rule is_target_format_Ymd[OF assms(2,3) sep(3)]) simp
  next
    case 3
    show ?thesis unfolding 3 f by (rule is_target_format_mdY[OF assms(2,3) sep(3)]) simp
  next
    case 4
    show ?thesis unfolding 4 f by (rule is_target_format_dmY[OF assms(2,3) sep(3)]) simp
  next
    case 5
    show ?thesis unfolding 5 f by (rule is_target_format_Ymd[OF assms(2,3) sep(2)]) simp
  qed
qed


lemma convert_date_canonical:
  assumes "fmt \<in> set common_formats" "valid_date y m d" "1000 \<le> y"
  shows "convert_date fmt (CStr (canonical_date_text y m d fmt)) =
           Some (CStr (canonical_date_text y m d fmt))"
  by (rule convert_date_target_format[OF assms(1) is_target_format_canonical[OF assms]])

text \<open>
  The target pattern of a date column is one of the five patterns of \<open>common_formats\<close>:
  format extraction chooses among them, and a standard without a pattern means
  \<open>%Y-%m-%d\<close>, which is the first of them.
\<close>

lemma first_max_in: "first_max f best xs \<in> set (best # xs)"
  by (induction xs arbitrary: best) auto

lemma analyze_date_format_common:
  "\<exists>fmt \<in> set common_formats. format (analyze_date_format samples) = Some fmt"
proof -
  have "first_max (\<lambda>fmt. count_format fmt samples) (hd common_formats) (tl common_formats)
      \<in> set (hd common_formats # tl common_formats)"
    by (rule first_max_in)
  moreover have "hd common_formats # tl common_formats = common_formats"
    by (simp add: common_formats_def)
  ultimately show ?thesis by (simp add: analyze_date_format_def)
qed

text \<open>
  Where the year has four digits without a leading zero, a value that is already in the
  target pattern is left as it is.  The target pattern of the column is one of the five
  patterns that a date column can have.  A cell at any position of the column that is a
  valid calendar date of a year from 1000 to 9999 written out in that pattern is returned
  unchanged, and none of the records appended to the log is a record of its row.  When
  every cell of the column is such a value, normalisation returns the column unchanged
  and leaves the log unchanged; for example \<open>2024-03-05\<close> under \<open>%Y-%m-%d\<close>.
\<close>

theorem normalize_dates_canonical:
  assumes "fmt \<in> set common_formats"
    and "(case format std of None \<Rightarrow> ascii ''%Y-%m-%d'' | Some f \<Rightarrow> f) = fmt"
  shows "(i < length series \<and> valid_date y m d \<and> 1000 \<le> y \<and>
          series ! i = CStr (canonical_date_text y m d fmt) \<longrightarrow>
            fst (normalize_dates self series std col fname sname) ! i = series ! i \<and>
            (\<exists>new. change_logs (snd (normalize_dates self series std col fname sname)) =
                change_logs self @ new \<and>
              (\<forall>r \<in> set new. row_index r \<noteq> int i))) \<and>
         ((\<forall>v \<in> set series. \<exists>y m d. valid_date y m d \<and> 1000 \<le> y \<and>
              v = CStr (canonical_date_text y m d fmt)) \<longrightarrow>
            normalize_dates self series std col fname sname = (series, self))"
proof (intro conjI impI)
  assume a: "i < length series \<and> valid_date y m d \<and> 1000 \<le> y \<and>
          series ! i = CStr (canonical_date_text y m d fmt)"
  then have c: "convert_date fmt (series ! i) = Some (series ! i)"
    using convert_date_canonical[OF assms(1), of y m d] by simp
  from a have i: "i < length series" by simp
  from series_loop_cell_unchanged
    [of i series "convert_date fmt" date_format col fname sname self, OF i c]
  show "fst (normalize_dates self series std col fname sname) ! i = series ! i"
    and "\<exists>new. change_logs (snd (normalize_dates self series std col fname sname)) =
                change_logs self @ new \<and>
              (\<forall>r \<in> set new. row_index r \<noteq> int i)"
    using assms(2) by (simp_all add: normalize_dates_def)
next
  assume all: "\<forall>v \<in> set series. \<exists>y m d. valid_date y m d \<and> 1000 \<le> y \<and>
              v = CStr (canonical_date_text y m d fmt)"
  have "\<forall>v \<in> set series. convert_date fmt v = Some v"
  proof
    fix v
    assume "v \<in> set series"
    with all obtain y m d where
      "valid_date y m d" "1000 \<le> y" "v = CStr (canonical_date_text y m d fmt)"
      by blast
    then show "convert_date fmt v = Some v"
      using convert_date_canonical[OF assms(1)] by simp
  qed
  then have "series_loop (convert_date fmt) date_format col fname sname 0 series self =
      (series, self)"
    by (rule series_loop_unchanged)
  then show "normalize_dates self series std col fname sname = (series, self)"
    using assms(2) by (simp add: normalize_dates_def)
qed

text \<open>
  Under the pattern \<open>%Y-%m-%d\<close>: the cell \<open>2024-03-05\<close> below a cell that is not a date,
  and the column of \<open>2024-03-05\<close> and \<open>1999-12-31\<close>.
\<close>

theorem normalize_dates_canonical_witness:
  "ascii ''%Y-%m-%d'' \<in> set common_formats \<and>
   valid_date 2024 3 5 \<and> valid_date 1999 12 31 \<and>
   canonical_date_text 2024 3 5 (ascii ''%Y-%m-%d'') = ascii ''2024-03-05'' \<and>
   canonical_date_text 1999 12 31 (ascii ''%Y-%m-%d'') = ascii ''1999-12-31'' \<and>
   fst (normalize_dates \<lparr>change_logs = []\<rparr>
     [CStr (ascii ''n/a''), CStr (ascii ''2024-03-05'')]
     (empty_standard\<lparr>format := Some (ascii ''%Y-%m-%d'')\<rparr>)
     (ascii ''date'') (ascii ''b.xlsx'') (ascii ''Sheet1'')) ! 1 = CStr (ascii ''2024-03-05'') \<and>
   normalize_dates \<lparr>change_logs = []\<rparr>
     [CStr (ascii ''2024-03-05''), CStr (ascii ''1999-12-31'')]
     (empty_standard\<lparr>format := Some (ascii ''%Y-%m-%d'')\<rparr>)
     (ascii ''date'') (ascii ''b.xlsx'') (ascii ''Sheet1'')
     = ([CStr (ascii ''2024-03-05''), CStr (ascii ''1999-12-31'')], \<lparr>change_logs = []\<rparr>)"
proof -
  have a: "ascii ''%Y-%m-%d'' \<in> set common_formats"
    by (simp add: common_formats_def)
  have b: "(case format (empty_standard\<lparr>format := Some (ascii ''%Y-%m-%d'')\<rparr>) of
      None \<Rightarrow> ascii ''%Y-%m-%d'' | Some f \<Rightarrow> f) = ascii ''%Y-%m-%d''"
    by simp
  have v1: "valid_date 2024 3 5" and v2: "valid_date 1999 12 31"
    by (simp_all add: valid_date_def cal_defs)
  have t1: "canonical_date_text 2024 3 5 (ascii ''%Y-%m-%d'') = ascii ''2024-03-05''"
    by (simp add: char_defs fmt_defs)
  have t2: "canonical_date_text 1999 12 31 (ascii ''%Y-%m-%d'') = ascii ''1999-12-31''"
    by (simp add: char_defs fmt_defs)
  have e1: "\<exists>y m d. valid_date y m d \<and> 1000 \<le> y \<and>
      CStr (ascii ''2024-03-05'') = CStr (canonical_date_text y m d (ascii ''%Y-%m-%d''))"
    using v1 t1 by (intro exI[of _ 2024] exI[of _ 3] exI[of _ 5]) simp
  have e2: "\<exists>y m d. valid_date y m d \<and> 1000 \<le> y \<and>
      CStr (ascii ''1999-12-31'') = CStr (canonical_date_text y m d (ascii ''%Y-%m-%d''))"
    using v2 t2 by (intro exI[of _ 1999] exI[of _ 12] exI[of _ 31]) simp
  have c: "\<forall>v \<in> set [CStr (ascii ''2024-03-05''), CStr (ascii ''1999-12-31'')].
      \<exists>y m d. valid_date y m d \<and> 1000 \<le> y \<and>
        v = CStr (canonical_date_text y m d (ascii ''%Y-%m-%d''))"
    using e1 e2 by simp
  have w: "normalize_dates \<lparr>change_logs = []\<rparr>
     [CStr (ascii ''2024-03-05''), CStr (ascii ''1999-12-31'')]
     (empty_standard\<lparr>format := Some (ascii ''%Y-%m-%d'')\<rparr>)
     (ascii ''date'') (ascii ''b.xlsx'') (ascii ''Sheet1'')
     = ([CStr (ascii ''2024-03-05''), CStr (ascii ''1999-12-31'')], \<lparr>change_logs = []\<rparr>)"
    using normalize_dates_canonical[OF a b, THEN conjunct2] c by (rule mp)
  have p: "(1::nat) < length [CStr (ascii ''n/a''), CStr (ascii ''2024-03-05'')] \<and>
      valid_date 2024 3 5 \<and> (1000::int) \<le> 2024 \<and>
      [CStr (ascii ''n/a''), CStr (ascii ''2024-03-05'')] ! 1 =
        CStr (canonical_date_text 2024 3 5 (ascii ''%Y-%m-%d''))"
    using v1 t1 by simp
  have "fst (normalize_dates \<lparr>change_logs = []\<rparr>
       [CStr (ascii ''n/a''), CStr (ascii ''2024-03-05'')]
       (empty_standard\<lparr>format := Some (ascii ''%Y-%m-%d'')\<rparr>)
       (ascii ''date'') (ascii ''b.xlsx'') (ascii ''Sheet1'')) ! 1 =
       [CStr (ascii ''n/a''), CStr (ascii ''2024-03-05'')] ! 1 \<and>
     (\<exists>new. change_logs (snd (normalize_dates \<lparr>change_logs = []\<rparr>
          [CStr (ascii ''n/a''), CStr (ascii ''2024-03-05'')]
          (empty_standard\<lparr>format := Some (ascii ''%Y-%m-%d'')\<rparr>)
          (ascii ''date'') (ascii ''b.xlsx'') (ascii ''Sheet1''))) =
        change_logs \<lparr>change_logs = []\<rparr> @ new \<and>
      (\<forall>r \<in> set new. row_index r \<noteq> int 1))"
    using normalize_dates_canonical[OF a b, THEN conjunct1] p by (rule mp)
  then have q: "fst (normalize_dates \<lparr>change_logs = []\<rparr>
       [CStr (ascii ''n/a''), CStr (ascii ''2024-03-05'')]
       (empty_standard\<lparr>format := Some (ascii ''%Y-%m-%d'')\<rparr>)
       (ascii ''date'') (ascii ''b.xlsx'') (ascii ''Sheet1'')) ! 1 = CStr (ascii ''2024-03-05'')"
    by simp
  from a v1 v2 t1 t2 q w show ?thesis by simp
qed


section \<open>Number normalisation of 1,234.567\<close>

lemma py_float_1234_567: "py_float (ascii ''1234.567'') = Some (Fin 1234567 3)"
  by (simp add: py_float_def parse_decimal_def split_at_def parse_digits_def parse_exponent_def
      int_of_digits_def char_defs Let_def)

lemma floor_1234567_10: "\<lfloor>(1234567::rat) / 10\<rfloor> = 123456"
  by (simp add: floor_eq_iff)

lemma round_half_even_1234567_10: "round_half_even (1234567 / 10) = 123457"
  unfolding round_half_even_def Let_def floor_1234567_10 by simp

lemma py_round_1234_567: "py_round (Fin 1234567 3) 2 = Fin 123457 2"
  using round_half_even_1234567_10 by simp

lemma float_repr_1234_57: "float_repr 123457 2 = ascii ''1234.57''"
  by (simp add: float_repr_def str_nat.simps zero_pad_def Let_def ascii_def)

lemma convert_number_1234_567:
  "convert_number 2 (CStr (ascii ''1,234.567'')) = Some (CFloat (Fin 123457 2))"
proof -
  have "filter (\<lambda>c. c \<noteq> 44) (ascii ''1,234.567'') = ascii ''1234.567''"
    by (simp add: ascii_def)
  then show ?thesis
    using py_float_1234_567 py_round_1234_567 by (simp add: convert_number_def)
qed

text \<open>
  C8. Number normalisation of the string cell \<open>1,234.567\<close> under a number standard with
  \<open>decimal_places = 2\<close> produces the float 1234.57 (the decimal 123457 / 100, printed
  \<open>1234.57\<close>) and appends exactly one change record to the log, with original value
  \<open>1,234.567\<close>, new value 1234.57 and kind \<open>number_format\<close>.
\<close>

theorem normalize_numbers_1234_567:
  "normalize_numbers self [CStr (ascii ''1,234.567'')]
     (empty_standard\<lparr>data_type := Some TNumber, decimal_places := Some 2\<rparr>) col fname sname
   = ([CFloat (Fin 123457 2)],
      self\<lparr>change_logs := change_logs self @
        [\<lparr>file_name = fname, sheet_name = sname, row_index = 0, column_name = col,
          change_type = number_format, original_value = CStr (ascii ''1,234.567''),
          new_value = CFloat (Fin 123457 2)\<rparr>]\<rparr>) \<and>
   float_val 123457 2 = 123457 / 100 \<and>
   py_str (CFloat (Fin 123457 2)) = ascii ''1234.57''"
proof -
  have ne: "ascii ''1,234.567'' \<noteq> ascii ''1234.57''"
    by (simp add: ascii_def)
  have "normalize_numbers self [CStr (ascii ''1,234.567'')]
     (empty_standard\<lparr>data_type := Some TNumber, decimal_places := Some 2\<rparr>) col fname sname
   = ([CFloat (Fin 123457 2)],
      self\<lparr>change_logs := change_logs self @
        [\<lparr>file_name = fname, sheet_name = sname, row_index = 0, column_name = col,
          change_type = number_format, original_value = CStr (ascii ''1,234.567''),
          new_value = CFloat (Fin 123457 2)\<rparr>]\<rparr>)"
    using convert_number_1234_567 float_repr_1234_57 ne
    by (simp add: normalize_numbers_def log_change_dict_def)
  moreover have "float_val 123457 2 = 123457 / 100"
    by (simp add: float_val_def)
  ultimately show ?thesis
    using float_repr_1234_57 by simp
qed

section \<open>Similarity\<close>

text \<open>
  C5. For every non-empty string \<open>a\<close> the similarity of \<open>a\<close> with itself is exactly 1.0,
  and the similarity of the empty string with any string \<open>x\<close> is 0.
\<close>

theorem calculate_similarity_self_and_empty:
  "(a \<noteq> [] \<longrightarrow> calculate_similarity ratio self a a = 1) \<and>
   calculate_similarity ratio self [] x = 0"
  by (simp add: calculate_similarity_def)

theorem calculate_similarity_self_and_empty_witness:
  "ascii ''name'' \<noteq> [] \<and>
   calculate_similarity (\<lambda>a b. 0) init_ExcelProcessor (ascii ''name'') (ascii ''name'') = 1 \<and>
   calculate_similarity (\<lambda>a b. 0) init_ExcelProcessor [] (ascii ''name'') = 0"
  using calculate_similarity_self_and_empty
    [of "ascii ''name''" "\<lambda>a b. 0" init_ExcelProcessor "ascii ''name''"]
  by (simp add: ascii_def)

section \<open>Matching\<close>

lemma best_target_fresh:
  "best_target sim thr used r ts (bm, bs) = (bm', bs') \<Longrightarrow>
   bm' = bm \<or> (\<exists>t. bm' = Some t \<and> t \<in> set ts \<and> t \<notin> used)"
proof (induction ts arbitrary: bm bs)
  case Nil
  then show ?case by simp
next
  case (Cons t ts)
  then show ?case
    by (auto simp: Let_def split: if_splits)
qed

lemma best_target_None_fresh:
  assumes "fst (best_target sim thr used r ts (None, 0)) = Some t"
  shows "t \<in> set ts \<and> t \<notin> used"
  using best_target_fresh[of sim thr used r ts None 0] assms
  by (cases "best_target sim thr used r ts (None, 0)") auto

lemma snd_set_update: "snd ` set (AList.update k v al) \<subseteq> insert v (snd ` set al)"
  by (induction al) auto

lemma distinct_snd_update:
  "distinct (map fst al) \<Longrightarrow> distinct (map snd al) \<Longrightarrow> v \<notin> snd ` set al \<Longrightarrow>
   distinct (map snd (AList.update k v al))"
proof (induction al)
  case Nil
  then show ?case by simp
next
  case (Cons p al)
  have sub: "snd ` set (AList.update k v al) \<subseteq> insert v (snd ` set al)"
    by (rule snd_set_update)
  from Cons show ?case
    using sub by (auto simp: image_iff)
qed

text \<open>
  The loop invariant of \<open>match_columns\<close>: the mapping is a dict (unique keys), its
  values are pairwise distinct, and every value is in \<open>used_targets\<close>.
\<close>

lemma match_columns_loop_inv:
  assumes "distinct (map fst m)" "distinct (map snd m)" "snd ` set m \<subseteq> u"
    and "match_columns_loop sim thr refs ts (m, u) = (m', u')"
  shows "distinct (map fst m') \<and> distinct (map snd m') \<and> snd ` set m' \<subseteq> u'"
  using assms
proof (induction refs arbitrary: m u)
  case Nil
  then show ?case by simp
next
  case (Cons r refs)
  show ?case
  proof (cases "truthy (fst (best_target sim thr u r ts (None, 0)))")
    case False
    with Cons show ?thesis by (simp add: Let_def)
  next
    case True
    then obtain t where t: "fst (best_target sim thr u r ts (None, 0)) = Some t"
      by (auto simp: truthy_def split: option.splits)
    then have fresh: "t \<notin> u" using best_target_None_fresh by blast
    have nin: "t \<notin> snd ` set m" using Cons.prems(3) fresh by blast
    have a: "distinct (map fst (AList.update r t m))"
      using Cons.prems(1) by (simp add: distinct_update)
    have b: "distinct (map snd (AList.update r t m))"
      using Cons.prems(1) Cons.prems(2) nin by (rule distinct_snd_update)
    have c: "snd ` set (AList.update r t m) \<subseteq> insert t u"
      using snd_set_update[of r t m] Cons.prems(3) by blast
    have "match_columns_loop sim thr refs ts (AList.update r t m, insert t u) = (m', u')"
      using Cons.prems(4) True t by (simp add: Let_def)
    with Cons.IH[OF a b c] show ?thesis by simp
  qed
qed

text \<open>
  C4. For every reference-column list, candidate-column list and threshold, the mapping
  returned by column matching is injective: it is a dict (its keys are unique) whose
  values are pairwise distinct, so no two distinct reference columns are mapped to the
  same candidate column.  Sheet matching has no such exclusivity: the reference sheets
  \<open>Sheet1\<close> and \<open>sheet1\<close> are both mapped to the one candidate sheet \<open>Sheet1\<close>.
\<close>

theorem match_columns_injective_match_sheets_not:
  "distinct (map fst (match_columns ratio self reference_columns target_columns threshold)) \<and>
   distinct (map snd (match_columns ratio self reference_columns target_columns threshold)) \<and>
   match_sheets ratio self [ascii ''Sheet1'', ascii ''sheet1''] [ascii ''Sheet1''] None =
     [(ascii ''Sheet1'', ascii ''Sheet1''), (ascii ''sheet1'', ascii ''Sheet1'')]"
proof -
  obtain m u where mu:
    "match_columns_loop (calculate_similarity ratio self)
       (case threshold of None \<Rightarrow> COLUMN_SIMILARITY_THRESHOLD | Some t \<Rightarrow> t)
       reference_columns target_columns ([], {}) = (m, u)"
    by (cases "match_columns_loop (calculate_similarity ratio self)
       (case threshold of None \<Rightarrow> COLUMN_SIMILARITY_THRESHOLD | Some t \<Rightarrow> t)
       reference_columns target_columns ([], {})") auto
  have "distinct (map fst m) \<and> distinct (map snd m) \<and> snd ` set m \<subseteq> u"
    by (rule match_columns_loop_inv[OF _ _ _ mu]) simp_all
  then have cols: "distinct (map fst (match_columns ratio self reference_columns target_columns threshold)) \<and>
    distinct (map snd (match_columns ratio self reference_columns target_columns threshold))"
    by (simp add: match_columns_def mu)
  have s1: "calculate_similarity ratio self (ascii ''Sheet1'') (ascii ''Sheet1'') = 1"
    by (simp add: calculate_similarity_def ascii_def)
  have s2: "calculate_similarity ratio self (ascii ''sheet1'') (ascii ''Sheet1'') = 1"
    by (simp add: calculate_similarity_def ascii_def normalize_string_def py_lower_def
        py_strip_def py_isspace_def py_isupper_char_def)
  have ne: "ascii ''Sheet1'' \<noteq> []" "ascii ''Sheet1'' \<noteq> ascii ''sheet1''"
    by (simp_all add: ascii_def)
  have sheets: "match_sheets ratio self [ascii ''Sheet1'', ascii ''sheet1''] [ascii ''Sheet1''] None =
     [(ascii ''Sheet1'', ascii ''Sheet1''), (ascii ''sheet1'', ascii ''Sheet1'')]"
    by (simp add: match_sheets_def s1 s2 truthy_def SIMILARITY_THRESHOLD_def ne)
  from cols sheets show ?thesis by simp
qed

section \<open>Header detection on sparse grids\<close>

lemma detect_header_loop_sparse:
  "\<forall>row \<in> set rows. length (filter (\<lambda>cell. cell \<noteq> CNone) row) < 2 \<Longrightarrow>
   detect_header_loop i rows st = st"
proof (induction rows arbitrary: i)
  case Nil
  then show ?case by (cases st) simp
next
  case (Cons r rows)
  then show ?case by (cases st) (simp add: Let_def)
qed

text \<open>
  When fewer than two cells of every row are other than \<open>None\<close>, the detection returns
  \<open>-1\<close>, the "no header found" result.
\<close>

lemma detect_header_row_sparse:
  assumes "\<forall>row \<in> set data. length (filter (\<lambda>cell. cell \<noteq> CNone) row) < 2"
  shows "detect_header_row data = - 1"
proof -
  have "\<forall>row \<in> set (take 10 data). length (filter (\<lambda>cell. cell \<noteq> CNone) row) < 2"
    using assms by (meson in_set_takeD)
  then have "detect_header_loop 0 (take 10 data) (- 1, 0) = (- 1, 0)"
    by (rule detect_header_loop_sparse)
  then show ?thesis by (simp add: detect_header_row_def)
qed

text \<open>
  On the rows of a worksheet, where \<open>_analyze_sheet\<close> has replaced the empty cells by
  \<open>None\<close>, the claim holds: fewer than two non-empty cells in every row give \<open>-1\<close>.
\<close>

lemma processed_row_non_empty:
  "length (filter (\<lambda>cell. cell \<noteq> CNone) (processed_row row)) =
   length (filter (\<lambda>cell. \<not> is_empty_cell cell) row)"
proof (induction row)
  case Nil
  then show ?case by (simp add: processed_row_def)
next
  case (Cons c row)
  have "is_empty_cell CNone" by (simp add: is_empty_cell_def)
  then have "\<not> is_empty_cell c \<Longrightarrow> c \<noteq> CNone" by auto
  with Cons show ?case by (auto simp: processed_row_def)
qed

lemma detect_header_row_worksheet_sparse:
  assumes "\<forall>row \<in> set data. length (filter (\<lambda>cell. \<not> is_empty_cell cell) row) < 2"
  shows "detect_header_row (map processed_row data) = - 1"
proof (rule detect_header_row_sparse)
  show "\<forall>row \<in> set (map processed_row data).
      length (filter (\<lambda>cell. cell \<noteq> CNone) row) < 2"
    using assms by (simp add: processed_row_non_empty)
qed

text \<open>
  C6.  The claim says that a grid in which every row has fewer than two non-empty cells
  gets the "no header found" result.  The rows of a CSV file reach the detection as
  \<open>csv.reader\<close> gives them, an empty field being the empty string.  The file with the
  lines \<open>id,\<close> and \<open>A1,\<close> has the rows \<open>['id', '']\<close> and \<open>['A1', '']\<close>, each with one
  non-empty cell.  The detection counts the cells that are not \<open>None\<close>, finds two in the
  first row, scores it 1 and returns row 0 as the header.  The same rows of a worksheet
  get \<open>-1\<close>.
\<close>

theorem detect_header_row_csv_empty_strings:
  "length (filter (\<lambda>cell. \<not> is_empty_cell cell) [CStr (ascii ''id''), CStr []]) = 1 \<and>
   length (filter (\<lambda>cell. \<not> is_empty_cell cell) [CStr (ascii ''A1''), CStr []]) = 1 \<and>
   detect_header_row [[CStr (ascii ''id''), CStr []], [CStr (ascii ''A1''), CStr []]] = 0 \<and>
   detect_header_row
     (map processed_row [[CStr (ascii ''id''), CStr []], [CStr (ascii ''A1''), CStr []]]) = - 1"
proof -
  have e: "is_empty_cell (CStr [])" "\<not> is_empty_cell (CStr (ascii ''id''))"
    "\<not> is_empty_cell (CStr (ascii ''A1''))"
    by (simp_all add: is_empty_cell_def char_defs)
  have n: "ascii ''id'' \<noteq> []" "ascii ''A1'' \<noteq> []"
    by (simp_all add: ascii_def)
  have csv: "detect_header_row [[CStr (ascii ''id''), CStr []], [CStr (ascii ''A1''), CStr []]] = 0"
    using n by (simp add: detect_header_row_def Let_def)
  have xlsx: "detect_header_row
     (map processed_row [[CStr (ascii ''id''), CStr []], [CStr (ascii ''A1''), CStr []]]) = - 1"
    using e by (simp add: processed_row_def detect_header_row_def Let_def)
  from e csv xlsx show ?thesis by simp
qed

section \<open>Case rule of a text column\<close>

lemma analyze_text_step_Some:
  "snd (snd (analyze_text_step (a, b, Some c) (CStr v))) = Some mixed"
  by (cases c) simp_all

lemma analyze_text_step_first:
  "snd (snd (analyze_text_step (a, b, None) (CStr v))) \<noteq> None"
  by simp

lemma analyze_text_step_other:
  "\<not> is_str x \<Longrightarrow> analyze_text_step st x = st"
  by (cases x) simp_all

lemma analyze_text_fold_Some:
  "1 \<le> length (filter is_str xs) \<Longrightarrow>
   snd (snd (foldl analyze_text_step (a, b, Some c) xs)) = Some mixed"
proof (induction xs arbitrary: a b c)
  case Nil
  then show ?case by simp
next
  case (Cons x xs)
  show ?case
  proof (cases x)
    case (CStr v)
    obtain a' b' where st: "analyze_text_step (a, b, Some c) (CStr v) = (a', b', Some mixed)"
      using analyze_text_step_Some[of a b c v]
      by (cases "analyze_text_step (a, b, Some c) (CStr v)") auto
    show ?thesis
    proof (cases "1 \<le> length (filter is_str xs)")
      case True
      then show ?thesis using Cons.IH[of a' b' mixed] CStr st by simp
    next
      case False
      then have "filter is_str xs = []" by (cases "filter is_str xs") auto
      then have "\<forall>y \<in> set xs. \<not> is_str y" by (simp add: filter_empty_conv)
      then have "foldl analyze_text_step (a', b', Some mixed) xs = (a', b', Some mixed)"
        by (induction xs) (simp_all add: analyze_text_step_other)
      then show ?thesis using CStr st by simp
    qed
  qed (use Cons in \<open>simp_all\<close>)
qed

lemma analyze_text_fold_two:
  "2 \<le> length (filter is_str xs) \<Longrightarrow>
   snd (snd (foldl analyze_text_step (a, b, None) xs)) = Some mixed"
proof (induction xs arbitrary: a b)
  case Nil
  then show ?case by simp
next
  case (Cons x xs)
  show ?case
  proof (cases x)
    case (CStr v)
    obtain a' b' c where st: "analyze_text_step (a, b, None) (CStr v) = (a', b', Some c)"
      using analyze_text_step_first[of a b v]
      by (cases "analyze_text_step (a, b, None) (CStr v)") auto
    have "1 \<le> length (filter is_str xs)" using Cons.prems CStr by simp
    then show ?thesis using analyze_text_fold_Some[of xs a' b' c] CStr st by simp
  qed (use Cons in \<open>simp_all\<close>)
qed

lemma analyze_text_format_two_strings:
  assumes "2 \<le> length (filter is_str samples)"
  shows "case_rule (analyze_text_format samples) = None"
  using analyze_text_fold_two[OF assms, of False False]
  by (cases "foldl analyze_text_step (False, False, None) samples")
     (simp add: analyze_text_format_def)


text \<open>
  C7. The claim says that a sample list in which every sample is uppercase gets the case
  rule \<open>upper\<close>.  On the two uppercase samples \<open>ABC\<close> and \<open>DEF\<close> the code returns no
  case rule: the second sample finds \<open>case_pattern\<close> already set and turns it into
  \<open>mixed\<close>.  A single uppercase sample does get \<open>upper\<close>.
\<close>

theorem analyze_text_format_two_upper_samples:
  "case_rule (analyze_text_format [CStr (ascii ''ABC''), CStr (ascii ''DEF'')]) = None \<and>
   py_isupper (ascii ''ABC'') \<and> py_isupper (ascii ''DEF'') \<and>
   case_rule (analyze_text_format [CStr (ascii ''ABC'')]) = Some upper"
  by (simp add: analyze_text_format_def ascii_def py_isupper_def py_islower_def
      py_isupper_char_def py_islower_char_def)

section \<open>The example run, step by step\<close>

lemma calculate_similarity_Data_data:
  "calculate_similarity r p (ascii ''Data'') (ascii ''data'') = 1"
  by (simp add: calculate_similarity_def ascii_def normalize_string_def py_lower_def
        py_strip_def py_isspace_def py_isupper_char_def)

lemma match_sheets_Data_data:
  "match_sheets r p [ascii ''Data''] [ascii ''data''] None = [(ascii ''Data'', ascii ''data'')]"
proof -
  have ne: "ascii ''data'' \<noteq> []" by (simp add: ascii_def)
  show ?thesis
    by (simp add: match_sheets_def calculate_similarity_Data_data truthy_def
        SIMILARITY_THRESHOLD_def ne)
qed

lemma example_structure_simps:
  "error_message (example_structure p) = None"
  "map name (sheets (example_structure (ascii ''ref.xlsx''))) = [ascii ''Data'']"
  "map name (sheets (example_structure (ascii ''b.xlsx''))) = [ascii ''data'']"
  "map name (sheets (example_structure (ascii ''c.xlsx''))) = [ascii ''Q'']"
  "sheets (example_structure p) \<noteq> []"
  by (simp_all add: example_structure_def example_sheet_def ascii_def)

lemma path_name_example:
  "path_name (ascii ''b.xlsx'') = ascii ''b.xlsx''"
  "path_name (ascii ''c.xlsx'') = ascii ''c.xlsx''"
  by (simp_all add: path_name_def ascii_def)

section \<open>Compatibility issues and the run\<close>

lemma check_synonyms_Data_Q:
  "check_synonyms init_ExcelProcessor (ascii ''Data'') (ascii ''Q'') = 0"
  by (simp add: check_synonyms_def init_ExcelProcessor_def init_synonym_dict_def char_defs Let_def)

lemma calculate_similarity_Data_Q:
  "calculate_similarity (\<lambda>a b. 0) init_ExcelProcessor (ascii ''Data'') (ascii ''Q'') = 0"
proof -
  have n1: "normalize_string (ascii ''Data'') = ascii ''data''"
    by (simp add: normalize_string_def char_defs)
  have n2: "normalize_string (ascii ''Q'') = ascii ''q''"
    by (simp add: normalize_string_def char_defs)
  have ne: "ascii ''Data'' \<noteq> []" "ascii ''Q'' \<noteq> []" "ascii ''data'' \<noteq> ascii ''q''"
    by (simp_all add: ascii_def)
  have c: "\<not> py_contains (ascii ''data'') (ascii ''q'')"
    "\<not> py_contains (ascii ''q'') (ascii ''data'')"
    by (simp_all add: ascii_def)
  have w1: "re_findall py_isword (py_lower (ascii ''Data'')) = [ascii ''data'']"
    by (simp add: re_findall_def py_isword_def char_defs)
  have w2: "re_findall py_isword (py_lower (ascii ''Q'')) = [ascii ''q'']"
    by (simp add: re_findall_def py_isword_def char_defs)
  show ?thesis
    unfolding calculate_similarity_def Let_def n1 n2 w1 w2 check_synonyms_Data_Q
    using ne c by simp
qed

lemma match_sheets_Data_Q:
  "match_sheets (\<lambda>a b. 0) init_ExcelProcessor [ascii ''Data''] [ascii ''Q''] None = []"
  by (simp add: match_sheets_def calculate_similarity_Data_Q SIMILARITY_THRESHOLD_def truthy_def)

text \<open>
  The claim of the specification fails on the example: the reference \<open>ref.xlsx\<close> analyses
  without error, the candidate \<open>c.xlsx\<close> has no sheet that matches a reference sheet, and
  the run of \<open>ref.xlsx\<close> with the candidates \<open>b.xlsx\<close> and \<open>c.xlsx\<close> ends as failed in the
  compatibility validation, with the issue of \<open>c.xlsx\<close> as its reason.
\<close>

theorem merge_process_aborts_on_unmatched_candidate:
  "error_message (read_file_structure example_env (ascii ''ref.xlsx'')) = None \<and>
   match_sheets (difflib_ratio example_env) (processor example_controller)
     (map name (sheets (read_file_structure example_env (ascii ''ref.xlsx''))))
     (map name (sheets (read_file_structure example_env (ascii ''c.xlsx'')))) None = [] \<and>
   merge_process example_env example_controller (\<lambda>k. False) (ascii ''ref.xlsx'')
     [ascii ''b.xlsx'', ascii ''c.xlsx''] =
     Failed (CompatibilityValidationFailed
       (CompatibilityIssues [NoMatchingSheet 2 (ascii ''c.xlsx'')]))"
  by (simp add: merge_process_def validate_files_compatibility_def success_def Let_def
      example_env_def example_controller_def example_structure_simps truthy_def
      match_sheets_Data_data match_sheets_Data_Q path_name_example)

lemma compatibility_issues_empty_iff:
  "compatibility_issues e self refs i files = [] \<longleftrightarrow>
     (\<forall>f \<in> set files. \<not> truthy (error_message (read_file_structure e f)) \<and>
        match_sheets (difflib_ratio e) (processor self) refs
          (map name (sheets (read_file_structure e f))) None \<noteq> [])"
  by (induction files arbitrary: i) (auto simp: Let_def)

lemma compatibility_issues_unmatched:
  assumes "f \<in> set files"
    and "\<not> truthy (error_message (read_file_structure e f))"
    and "match_sheets (difflib_ratio e) (processor self) refs
          (map name (sheets (read_file_structure e f))) None = []"
  shows "\<exists>k. NoMatchingSheet k (path_name f) \<in> set (compatibility_issues e self refs i files)"
  using assms
proof (induction files arbitrary: i)
  case Nil
  then show ?case by simp
next
  case (Cons g files)
  show ?case
  proof (cases "g = f")
    case True
    then show ?thesis using Cons.prems by (auto simp: Let_def)
  next
    case False
    then have "f \<in> set files" using Cons.prems by simp
    from Cons.IH[OF this Cons.prems(2,3), of "Suc i"]
    obtain k where
      "NoMatchingSheet k (path_name f) \<in> set (compatibility_issues e self refs (Suc i) files)"
      by blast
    then show ?thesis by (auto simp: Let_def)
  qed
qed

text \<open>
  C1, amended.  In a run whose reference file analyses without error and has a sheet, and
  which is not cancelled before the validation: a candidate file that analyses and whose
  sheet names match no reference sheet is recorded as a compatibility issue, and the run
  fails in the compatibility validation with the recorded issues; no later stage runs.
  The run goes on to the extraction of the format standards exactly when it is not
  cancelled after the validation and every candidate analyses without error and has at
  least one matched sheet.
\<close>

theorem merge_process_compatibility_issue_aborts:
  assumes ref_ok: "\<not> truthy (error_message (read_file_structure e reference_file))"
    and ref_sheets: "sheets (read_file_structure e reference_file) \<noteq> []"
    and not_cancelled: "\<not> cancelled 1"
  shows "(\<forall>f \<in> set merge_files.
            \<not> truthy (error_message (read_file_structure e f)) \<longrightarrow>
            match_sheets (difflib_ratio e) (processor self)
              (map name (sheets (read_file_structure e reference_file)))
              (map name (sheets (read_file_structure e f))) None = [] \<longrightarrow>
            (\<exists>issues k. NoMatchingSheet k (path_name f) \<in> set issues \<and>
               merge_process e self cancelled reference_file merge_files =
                 Failed (CompatibilityValidationFailed (CompatibilityIssues issues)))) \<and>
         ((\<exists>rs. merge_process e self cancelled reference_file merge_files =
                  ExtractingFormatStandards rs) \<longleftrightarrow>
          \<not> cancelled 2 \<and>
          (\<forall>f \<in> set merge_files.
             \<not> truthy (error_message (read_file_structure e f)) \<and>
             match_sheets (difflib_ratio e) (processor self)
               (map name (sheets (read_file_structure e reference_file)))
               (map name (sheets (read_file_structure e f))) None \<noteq> []))"
proof (intro conjI ballI impI)
  fix f
  assume f: "f \<in> set merge_files"
    and ok: "\<not> truthy (error_message (read_file_structure e f))"
    and un: "match_sheets (difflib_ratio e) (processor self)
              (map name (sheets (read_file_structure e reference_file)))
              (map name (sheets (read_file_structure e f))) None = []"
  let ?issues = "compatibility_issues e self
      (map name (sheets (read_file_structure e reference_file))) 1 merge_files"
  from compatibility_issues_unmatched[OF f ok un, of 1]
  obtain k where k: "NoMatchingSheet k (path_name f) \<in> set ?issues" by blast
  then have ne: "?issues \<noteq> []" by auto
  have "merge_process e self cancelled reference_file merge_files =
          Failed (CompatibilityValidationFailed (CompatibilityIssues ?issues))"
    using ref_ok ref_sheets not_cancelled ne
    by (simp add: merge_process_def validate_files_compatibility_def success_def Let_def)
  with k show "\<exists>issues k. NoMatchingSheet k (path_name f) \<in> set issues \<and>
               merge_process e self cancelled reference_file merge_files =
                 Failed (CompatibilityValidationFailed (CompatibilityIssues issues))"
    by blast
next
  show "(\<exists>rs. merge_process e self cancelled reference_file merge_files =
                  ExtractingFormatStandards rs) \<longleftrightarrow>
          \<not> cancelled 2 \<and>
          (\<forall>f \<in> set merge_files.
             \<not> truthy (error_message (read_file_structure e f)) \<and>
             match_sheets (difflib_ratio e) (processor self)
               (map name (sheets (read_file_structure e reference_file)))
               (map name (sheets (read_file_structure e f))) None \<noteq> [])"
    using ref_ok ref_sheets not_cancelled
      compatibility_issues_empty_iff[of e self
        "map name (sheets (read_file_structure e reference_file))" 1 merge_files]
    by (auto simp: merge_process_def validate_files_compatibility_def success_def Let_def)
qed

theorem merge_process_compatibility_issue_aborts_witness:
  "\<not> truthy (error_message (read_file_structure example_env (ascii ''ref.xlsx''))) \<and>
   sheets (read_file_structure example_env (ascii ''ref.xlsx'')) \<noteq> [] \<and>
   \<not> truthy (error_message (read_file_structure example_env (ascii ''c.xlsx''))) \<and>
   match_sheets (difflib_ratio example_env) (processor example_controller)
     (map name (sheets (read_file_structure example_env (ascii ''ref.xlsx''))))
     (map name (sheets (read_file_structure example_env (ascii ''c.xlsx'')))) None = [] \<and>
   (\<exists>issues k. NoMatchingSheet k (path_name (ascii ''c.xlsx'')) \<in> set issues \<and>
      merge_process example_env example_controller (\<lambda>k. False) (ascii ''ref.xlsx'')
        [ascii ''c.xlsx''] =
      Failed (CompatibilityValidationFailed (CompatibilityIssues issues)))"
proof -
  have p1: "\<not> truthy (error_message (read_file_structure example_env (ascii ''ref.xlsx'')))"
    by (simp add: example_env_def example_structure_simps truthy_def)
  have p2: "sheets (read_file_structure example_env (ascii ''ref.xlsx'')) \<noteq> []"
    by (simp add: example_env_def example_structure_simps)
  have p3: "\<not> (\<lambda>k::nat. False) 1" by simp
  have p4: "\<not> truthy (error_message (read_file_structure example_env (ascii ''c.xlsx'')))"
    by (simp add: example_env_def example_structure_simps truthy_def)
  have p5: "match_sheets (difflib_ratio example_env) (processor example_controller)
     (map name (sheets (read_file_structure example_env (ascii ''ref.xlsx''))))
     (map name (sheets (read_file_structure example_env (ascii ''c.xlsx'')))) None = []"
    by (simp add: example_env_def example_controller_def example_structure_simps
        match_sheets_Data_Q)
  note inst = merge_process_compatibility_issue_aborts[OF p1 p2 p3,
      of "[ascii ''c.xlsx'']" example_controller, THEN conjunct1]
  have "\<exists>issues k. NoMatchingSheet k (path_name (ascii ''c.xlsx'')) \<in> set issues \<and>
      merge_process example_env example_controller (\<lambda>k. False) (ascii ''ref.xlsx'')
        [ascii ''c.xlsx''] =
      Failed (CompatibilityValidationFailed (CompatibilityIssues issues))"
    using inst p4 p5 by simp
  with p1 p2 p4 p5 show ?thesis by blast
qed

section \<open>The change log across a run\<close>

text \<open>
  What \<open>normalize_data\<close> leaves in the log: only records of its own kinds.  Whatever the
  log holds when it is called, every record of a sheet mapping or a column mapping among
  it is gone afterwards.
\<close>

lemma normalize_data_forgets_log:
  "normalize_data (self\<lparr>change_logs := logs\<rparr>) df format_standards fname sname =
   normalize_data self df format_standards fname sname"
  by (simp add: normalize_data_def)

lemma series_loop_log:
  "series_loop convert kind col fname sname idx series self = (out, self') \<Longrightarrow>
   \<exists>new. change_logs self' = change_logs self @ new \<and> (\<forall>r \<in> set new. change_type r = kind)"
proof (induction series arbitrary: idx self out self')
  case Nil
  then show ?case by simp
next
  case (Cons v rest)
  from Cons.prems obtain self1 idx' out' where
    r: "series_loop convert kind col fname sname idx' rest self1 = (out', self')"
    and s: "self1 = self \<or>
        (\<exists>c. self1 = log_change_dict self fname sname (int idx) col kind v c)"
    by (auto split: option.splits prod.splits if_splits)
  from Cons.IH[OF r] obtain new where
    n: "change_logs self' = change_logs self1 @ new" "\<forall>r \<in> set new. change_type r = kind"
    by blast
  from s show ?case
  proof
    assume "self1 = self"
    with n show ?thesis by blast
  next
    assume "\<exists>c. self1 = log_change_dict self fname sname (int idx) col kind v c"
    then obtain c where c: "self1 = log_change_dict self fname sname (int idx) col kind v c"
      by blast
    let ?rec = "\<lparr>file_name = fname, sheet_name = sname, row_index = int idx, column_name = col,
      change_type = kind, original_value = v, new_value = c\<rparr>"
    have "change_logs self' = change_logs self @ (?rec # new)"
      using n(1) c by (simp add: log_change_dict_def)
    moreover have "\<forall>r \<in> set (?rec # new). change_type r = kind"
      using n(2) by simp
    ultimately show ?thesis by blast
  qed
qed

lemma normalize_column_log:
  assumes "normalize_column self series std col fname sname = (out, self')"
  shows "\<exists>new. change_logs self' = change_logs self @ new \<and>
     (\<forall>r \<in> set new. change_type r \<in>
        {number_format, date_format, text_format, remove_empty_rows})"
proof -
  from assms obtain kind conv where
    "series_loop conv kind col fname sname 0 series self = (out, self')"
    "kind \<in> {number_format, date_format, text_format, remove_empty_rows}"
    by (auto simp: normalize_column_def normalize_numbers_def normalize_dates_def
        normalize_text_def Let_def
        split: option.splits data_type.splits)
  with series_loop_log[of conv kind col fname sname 0 series self out self']
  show ?thesis by auto
qed

lemma normalize_columns_log:
  "normalize_columns self df format_standards fname sname = (out, self') \<Longrightarrow>
   \<exists>new. change_logs self' = change_logs self @ new \<and>
     (\<forall>r \<in> set new. change_type r \<in>
        {number_format, date_format, text_format, remove_empty_rows})"
proof (induction df arbitrary: self out self')
  case Nil
  then show ?case by simp
next
  case (Cons cs rest)
  obtain col series where cs: "cs = (col, series)" by (cases cs)
  show ?case
  proof (cases "map_of format_standards col")
    case None
    with Cons.prems cs obtain out' where
      "normalize_columns self rest format_standards fname sname = (out', self')"
      by (auto split: prod.splits)
    from Cons.IH[OF this] show ?thesis .
  next
    case (Some std)
    with Cons.prems cs obtain series' self1 out' where
      a: "normalize_column self series std col fname sname = (series', self1)"
      and b: "normalize_columns self1 rest format_standards fname sname = (out', self')"
      by (auto split: prod.splits)
    from normalize_column_log[OF a] obtain n1 where
      n1: "change_logs self1 = change_logs self @ n1"
        "\<forall>r \<in> set n1. change_type r \<in>
        {number_format, date_format, text_format, remove_empty_rows}" by blast
    from Cons.IH[OF b] obtain n2 where
      n2: "change_logs self' = change_logs self1 @ n2"
        "\<forall>r \<in> set n2. change_type r \<in>
        {number_format, date_format, text_format, remove_empty_rows}" by blast
    have "change_logs self' = change_logs self @ (n1 @ n2)" using n1(1) n2(1) by simp
    moreover have "\<forall>r \<in> set (n1 @ n2). change_type r \<in>
        {number_format, date_format, text_format, remove_empty_rows}"
      using n1(2) n2(2) by auto
    ultimately show ?thesis by blast
  qed
qed

lemma normalize_data_log:
  assumes "normalize_data self df format_standards fname sname = (out, self')"
  shows "\<forall>r \<in> set (change_logs self'). change_type r \<in>
        {number_format, date_format, text_format, remove_empty_rows}"
proof -
  from assms obtain df1 self1 where
    a: "normalize_columns (self\<lparr>change_logs := []\<rparr>) df format_standards fname sname =
          (df1, self1)"
    and b: "clean_data self1 df1 fname sname = (out, self')"
    by (auto simp: normalize_data_def split: prod.splits)
  from normalize_columns_log[OF a] have
    1: "\<forall>r \<in> set (change_logs self1). change_type r \<in>
        {number_format, date_format, text_format, remove_empty_rows}" by auto
  from b have "self' = self1 \<or>
      (\<exists>x y. self' = log_change_dict self1 fname sname (- 1) (ascii ''ALL_COLUMNS'')
         remove_empty_rows x y)"
    by (auto simp: clean_data_def Let_def split: if_splits)
  then show ?thesis
    using 1 by (auto simp: log_change_dict_def)
qed

lemma normalize_data_drops_mappings:
  assumes "normalize_data self df format_standards fname sname = (out, self')"
    and "r \<in> set (change_logs self')"
  shows "change_type r \<noteq> sheet_mapping \<and> change_type r \<noteq> column_mapping"
  using normalize_data_log[OF assms(1)] assms(2) by auto

text \<open>The example, step by step.\<close>

lemma detect_header_row_example: "detect_header_row example_rows = 0"
proof -
  have n: "ascii ''id'' \<noteq> []" "ascii ''name'' \<noteq> []" "ascii ''A1'' \<noteq> []" "ascii ''Bob'' \<noteq> []"
    "ascii ''id'' \<noteq> ascii ''name''" "ascii ''A1'' \<noteq> ascii ''Bob''"
    by (simp_all add: ascii_def)
  show ?thesis
    using n by (simp add: example_rows_def detect_header_row_def Let_def)
qed

lemma calculate_similarity_id_id:
  "calculate_similarity r p (ascii ''id'') (ascii ''id'') = 1"
  by (simp add: calculate_similarity_def ascii_def)

lemma calculate_similarity_name_name:
  "calculate_similarity r p (ascii ''name'') (ascii ''name'') = 1"
  by (simp add: calculate_similarity_def ascii_def)

lemma check_synonyms_id_name:
  "check_synonyms init_ExcelProcessor (ascii ''id'') (ascii ''name'') = 0"
  by (simp add: check_synonyms_def init_ExcelProcessor_def init_synonym_dict_def char_defs Let_def)

lemma calculate_similarity_id_name:
  "calculate_similarity (\<lambda>a b. 0) init_ExcelProcessor (ascii ''id'') (ascii ''name'') = 0"
proof -
  have n1: "normalize_string (ascii ''id'') = ascii ''id''"
    by (simp add: normalize_string_def char_defs)
  have n2: "normalize_string (ascii ''name'') = ascii ''name''"
    by (simp add: normalize_string_def char_defs)
  have ne: "ascii ''id'' \<noteq> []" "ascii ''name'' \<noteq> []" "ascii ''id'' \<noteq> ascii ''name''"
    by (simp_all add: ascii_def)
  have c: "\<not> py_contains (ascii ''id'') (ascii ''name'')"
    "\<not> py_contains (ascii ''name'') (ascii ''id'')"
    by (simp_all add: ascii_def)
  have w1: "re_findall py_isword (py_lower (ascii ''id'')) = [ascii ''id'']"
    by (simp add: re_findall_def py_isword_def char_defs)
  have w2: "re_findall py_isword (py_lower (ascii ''name'')) = [ascii ''name'']"
    by (simp add: re_findall_def py_isword_def char_defs)
  show ?thesis
    unfolding calculate_similarity_def Let_def n1 n2 w1 w2 check_synonyms_id_name
    using ne c by simp
qed

lemma match_columns_example:
  "match_columns (\<lambda>a b. 0) init_ExcelProcessor [ascii ''id'', ascii ''name'']
     [ascii ''id'', ascii ''name''] None =
     [(ascii ''id'', ascii ''id''), (ascii ''name'', ascii ''name'')]"
proof -
  have ne: "ascii ''id'' \<noteq> []" "ascii ''name'' \<noteq> []" "ascii ''id'' \<noteq> ascii ''name''"
    "ascii ''name'' \<noteq> ascii ''id''"
    by (simp_all add: ascii_def)
  show ?thesis
    by (simp add: match_columns_def calculate_similarity_id_id calculate_similarity_name_name
        calculate_similarity_id_name truthy_def COLUMN_SIMILARITY_THRESHOLD_def ne)
qed

lemma log_sheet_mappings_example:
  "log_sheet_mappings \<lparr>change_logs = []\<rparr> (ascii ''b.xlsx'') [(ascii ''Data'', ascii ''data'')] =
     \<lparr>change_logs =
        [\<lparr>file_name = ascii ''b.xlsx'', sheet_name = ascii ''Data'', row_index = - 1,
          column_name = ascii ''SHEET_NAME'', change_type = sheet_mapping,
          original_value = CStr (ascii ''data''), new_value = CStr (ascii ''Data'')\<rparr>]\<rparr>"
proof -
  have "ascii ''Data'' \<noteq> ascii ''data''" by (simp add: ascii_def)
  then show ?thesis by (simp add: log_change_dict_def)
qed

lemma align_columns_example:
  "align_columns [(ascii ''id'', [CStr (ascii ''A1'')]), (ascii ''name'', [CStr (ascii ''Bob'')])]
     [ascii ''id'', ascii ''name'']
     [(ascii ''id'', ascii ''id''), (ascii ''name'', ascii ''name'')] =
     [(ascii ''id'', [CStr (ascii ''A1'')]), (ascii ''name'', [CStr (ascii ''Bob'')])]"
proof -
  have ne: "ascii ''id'' \<noteq> ascii ''name''" "ascii ''name'' \<noteq> ascii ''id''"
    by (simp_all add: ascii_def)
  show ?thesis
    using ne by (simp add: align_columns_def mapped_series_def)
qed

lemma convert_text_example:
  "convert_text (empty_standard\<lparr>data_type := Some TText\<rparr>) (CStr (ascii ''A1'')) =
     Some (CStr (ascii ''A1''))"
  "convert_text (empty_standard\<lparr>data_type := Some TText\<rparr>) (CStr (ascii ''Bob'')) =
     Some (CStr (ascii ''Bob''))"
  by (simp_all add: convert_text_def empty_standard_def py_strip_def py_isspace_def ascii_def
      Let_def)

lemma normalize_data_example:
  "normalize_data nz
     [(ascii ''id'', [CStr (ascii ''A1'')]), (ascii ''name'', [CStr (ascii ''Bob'')])]
     [(ascii ''id'', empty_standard\<lparr>data_type := Some TText\<rparr>),
      (ascii ''name'', empty_standard\<lparr>data_type := Some TText\<rparr>)] fname sname =
   ([(ascii ''id'', [CStr (ascii ''A1'')]), (ascii ''name'', [CStr (ascii ''Bob'')])],
    nz\<lparr>change_logs := []\<rparr>)"
proof -
  have ne: "ascii ''id'' \<noteq> ascii ''name''" "ascii ''name'' \<noteq> ascii ''id''"
    by (simp_all add: ascii_def)
  show ?thesis
    using convert_text_example ne
    by (simp add: normalize_data_def normalize_column_def normalize_text_def clean_data_def
        dropna_all_def nrows_def empty_standard_def Let_def)
qed

lemma find_example:
  "find (\<lambda>s. name s = ascii ''Data'') (sheets (example_structure (ascii ''ref.xlsx''))) =
     Some (example_sheet (ascii ''Data''))"
  by (simp add: example_structure_def example_sheet_def ascii_def)

lemma process_merge_file_example:
  "process_merge_file example_env example_controller (ascii ''b.xlsx'')
     (example_structure (ascii ''ref.xlsx'')) example_standards =
   (example_controller,
    Some [(ascii ''Data'',
           [(ascii ''id'', [CStr (ascii ''A1'')]),
            (ascii ''name'', [CStr (ascii ''Bob'')]),
            (ascii ''_source_file'', [CStr (ascii ''b.xlsx'')])])])"
proof -
  have ne: "ascii ''id'' \<noteq> ascii ''_source_file''" "ascii ''name'' \<noteq> ascii ''_source_file''"
    by (simp_all add: ascii_def)
  have cols: "columns (example_sheet (ascii ''Data'')) = [ascii ''id'', ascii ''name'']"
    by (simp add: example_sheet_def)
  have stds: "map_of example_standards (ascii ''Data'') =
      Some [(ascii ''id'', empty_standard\<lparr>data_type := Some TText\<rparr>),
            (ascii ''name'', empty_standard\<lparr>data_type := Some TText\<rparr>)]"
    by (simp add: example_standards_def)
  show ?thesis
    unfolding process_merge_file_def Let_def path_name_example
    by (simp add: example_env_def example_controller_def example_structure_simps truthy_def
        match_sheets_Data_data log_sheet_mappings_example find_example cols stds
        match_columns_example align_columns_example normalize_data_example df_empty_def
        nrows_def ne Let_def)
qed

text \<open>
  C2.  The claim says that every record appended to the change log is still in the log
  at the end of the run.  In the example run the sheets have the two columns \<open>id\<close> and
  \<open>name\<close>: header detection finds the header of their rows in row 0, and the columns of
  the sheet are the cells of that row.  Processing the candidate \<open>b.xlsx\<close> matches the
  reference sheet \<open>Data\<close> with the sheet \<open>data\<close>, and the logging of the sheet mappings
  appends the record of that mapping to the empty log.  After stage 4 the file has been
  processed without error, and the log is empty: \<open>normalize_data\<close> has assigned
  \<open>change_logs = []\<close>, and the record of the mapping is lost.
\<close>

theorem process_merge_files_loses_sheet_mapping_record:
  "detect_header_row example_rows = 0 \<and>
   map py_str (example_rows ! 0) = columns (example_sheet (ascii ''data'')) \<and>
   match_sheets (difflib_ratio example_env) (processor example_controller)
     (map name (sheets (example_structure (ascii ''ref.xlsx''))))
     (map name (sheets (read_file_structure example_env (ascii ''b.xlsx'')))) None =
     [(ascii ''Data'', ascii ''data'')] \<and>
   change_logs (log_sheet_mappings (normalizer example_controller) (ascii ''b.xlsx'')
     [(ascii ''Data'', ascii ''data'')]) =
     [\<lparr>file_name = ascii ''b.xlsx'', sheet_name = ascii ''Data'', row_index = - 1,
       column_name = ascii ''SHEET_NAME'', change_type = sheet_mapping,
       original_value = CStr (ascii ''data''), new_value = CStr (ascii ''Data'')\<rparr>] \<and>
   process_merge_files example_env example_controller [ascii ''b.xlsx'']
     (example_structure (ascii ''ref.xlsx'')) example_standards ([], []) =
     (example_controller,
      [(ascii ''Data'',
        [[(ascii ''id'', [CStr (ascii ''A1'')]),
          (ascii ''name'', [CStr (ascii ''Bob'')]),
          (ascii ''_source_file'', [CStr (ascii ''b.xlsx'')])]])],
      []) \<and>
   change_logs (normalizer (fst (process_merge_files example_env example_controller
     [ascii ''b.xlsx''] (example_structure (ascii ''ref.xlsx'')) example_standards ([], [])))) = []"
proof -
  have h: "detect_header_row example_rows = 0"
    by (rule detect_header_row_example)
  have k: "map py_str (example_rows ! 0) = columns (example_sheet (ascii ''data''))"
    by (simp add: example_rows_def example_sheet_def)
  have m: "match_sheets (difflib_ratio example_env) (processor example_controller)
     (map name (sheets (example_structure (ascii ''ref.xlsx''))))
     (map name (sheets (read_file_structure example_env (ascii ''b.xlsx'')))) None =
     [(ascii ''Data'', ascii ''data'')]"
    by (simp add: example_env_def example_structure_simps match_sheets_Data_data)
  have l: "change_logs (log_sheet_mappings (normalizer example_controller) (ascii ''b.xlsx'')
     [(ascii ''Data'', ascii ''data'')]) =
     [\<lparr>file_name = ascii ''b.xlsx'', sheet_name = ascii ''Data'', row_index = - 1,
       column_name = ascii ''SHEET_NAME'', change_type = sheet_mapping,
       original_value = CStr (ascii ''data''), new_value = CStr (ascii ''Data'')\<rparr>]"
    using log_sheet_mappings_example
    by (simp add: example_controller_def del: log_sheet_mappings.simps)
  have p: "process_merge_files example_env example_controller [ascii ''b.xlsx'']
     (example_structure (ascii ''ref.xlsx'')) example_standards ([], []) =
     (example_controller,
      [(ascii ''Data'',
        [[(ascii ''id'', [CStr (ascii ''A1'')]),
          (ascii ''name'', [CStr (ascii ''Bob'')]),
          (ascii ''_source_file'', [CStr (ascii ''b.xlsx'')])]])],
      [])"
    by (simp add: process_merge_file_example)
  have e: "change_logs (normalizer example_controller) = []"
    by (simp add: example_controller_def)
  from h k m l p e show ?thesis by simp
qed

end
